theory Spec2Isabelle
  imports Complex_Main "HOL-Library.Sublist" "HOL-Library.Char_ord" "HOL-Library.List_Lexorder"
begin

section \<open>Python strings\<close>

text \<open>
  Strings are modelled as \<^typ>\<open>string\<close>; the model covers ASCII text, where one
  \<^typ>\<open>char\<close> is one Python character.
\<close>

text \<open>\<^verbatim>\<open>s.split(sep)\<close> for a one-character separator: the pieces between the separators,
  empty pieces kept, and one piece for the empty string.\<close>

fun split_on :: "char \<Rightarrow> string \<Rightarrow> string list" where
  "split_on sep [] = [[]]"
| "split_on sep (c # cs) =
     (if c = sep then [] # split_on sep cs
      else (case split_on sep cs of
              [] \<Rightarrow> [[c]]
            | w # ws \<Rightarrow> (c # w) # ws))"

text \<open>The ASCII characters for which \<^verbatim>\<open>str.isspace\<close> holds: tab, line feed, vertical tab,
  form feed, carriage return, the four separators 28 to 31 and the space.\<close>

definition isspace :: "char \<Rightarrow> bool" where
  "isspace c = (let n = (of_char c :: nat) in (9 \<le> n \<and> n \<le> 13) \<or> (28 \<le> n \<and> n \<le> 32))"

definition strip :: "string \<Rightarrow> string" where
  "strip s = rev (dropWhile isspace (rev (dropWhile isspace s)))"

definition lower_char :: "char \<Rightarrow> char" where
  "lower_char c = (let n = (of_char c :: nat) in if 65 \<le> n \<and> n \<le> 90 then char_of (n + 32) else c)"

definition lower :: "string \<Rightarrow> string" where
  "lower s = map lower_char s"

section \<open>Keyword explosion and top-N (\<^verbatim>\<open>get_university_keywords\<close>)\<close>

text \<open>
  A Python \<^verbatim>\<open>dict\<close> iterates in insertion order, and \<^verbatim>\<open>sorted\<close> reads that order, so
  \<^verbatim>\<open>keyword_counts\<close> is an association list in insertion order with distinct keys.
  \<open>dict_add d k c\<close> is
  \<^verbatim>\<open>if k in d: d[k] += c  else: d[k] = c\<close>: an existing key keeps its position, a new key
  goes to the end.
\<close>

type_synonym keyword_dict = "(string \<times> int) list"

fun dict_add :: "keyword_dict \<Rightarrow> string \<Rightarrow> int \<Rightarrow> keyword_dict" where
  "dict_add [] k c = [(k, c)]"
| "dict_add ((k', v) # d) k c =
     (if k' = k then (k', v + c) # d else (k', v) # dict_add d k c)"

text \<open>The inner loop \<^verbatim>\<open>for keyword in keywords\<close>: trim, lowercase, keep the tokens longer than
  two characters.\<close>

fun count_keywords :: "keyword_dict \<Rightarrow> string list \<Rightarrow> int \<Rightarrow> keyword_dict" where
  "count_keywords d [] count = d"
| "count_keywords d (kw # kws) count =
     (let keyword = lower (strip kw) in
      if keyword \<noteq> [] \<and> length keyword > 2
      then count_keywords (dict_add d keyword count) kws count
      else count_keywords d kws count)"

text \<open>A result row of the keyword query: \<^verbatim>\<open>row[0]\<close> is \<^verbatim>\<open>p.keywords\<close> (possibly NULL),
  \<^verbatim>\<open>row[1]\<close> is \<^verbatim>\<open>COUNT(*)\<close>.\<close>

type_synonym keyword_row = "string option \<times> int"

text \<open>\<^verbatim>\<open>row[0].split(',') if row[0] else []\<close>\<close>

definition row_keywords :: "string option \<Rightarrow> string list" where
  "row_keywords r0 =
     (case r0 of None \<Rightarrow> [] | Some s \<Rightarrow> if s = [] then [] else split_on (CHR '','') s)"

text \<open>The outer loop \<^verbatim>\<open>for row in results\<close>.\<close>

fun explode_rows :: "keyword_dict \<Rightarrow> keyword_row list \<Rightarrow> keyword_dict" where
  "explode_rows d [] = d"
| "explode_rows d ((r0, count) # rows) =
     explode_rows (count_keywords d (row_keywords r0) count) rows"

definition keyword_counts :: "keyword_row list \<Rightarrow> keyword_dict" where
  "keyword_counts results = explode_rows [] results"

text \<open>\<^verbatim>\<open>sorted(items, key=lambda x: x[1], reverse=True)\<close>: Python's sort is stable, and with
  \<^verbatim>\<open>reverse=True\<close> it sorts as if the list were reversed, sorted stably and reversed
  again, so that items with equal counts keep their original order.\<close>

definition sorted_desc :: "('k \<times> 'v::linorder) list \<Rightarrow> ('k \<times> 'v) list" where
  "sorted_desc items = rev (sort_key snd (rev items))"

text \<open>\<^verbatim>\<open>sorted(...)[:n]\<close>; the source takes \<open>n = 10\<close>.\<close>

definition top_n :: "nat \<Rightarrow> ('k \<times> 'v::linorder) list \<Rightarrow> ('k \<times> 'v) list" where
  "top_n n items = take n (sorted_desc items)"

definition sorted_keywords :: "keyword_row list \<Rightarrow> keyword_dict" where
  "sorted_keywords results = top_n 10 (keyword_counts results)"

section \<open>Data frames of publication rows\<close>

text \<open>
  The publication queries all select \<^verbatim>\<open>title, year, venue, citations\<close> first; the further
  columns of a query (abstract, authors, keywords, ...) are the extension of the record.
  Every column is nullable. A data frame is the list of its rows.
\<close>

record pub_row =
  title :: "string option"
  year :: "int option"
  venue :: "string option"
  citations :: "int option"

text \<open>\<^verbatim>\<open>df.groupby(col).size().reset_index(name='count')\<close>: one partition per distinct value
  of the column, in ascending order of the value (\<^verbatim>\<open>sort=True\<close> is the default), with the
  number of rows that carry it; rows whose value is null are dropped
  (\<^verbatim>\<open>dropna=True\<close> is the default).\<close>

definition groupby_size :: "('r \<Rightarrow> 'k::linorder option) \<Rightarrow> 'r list \<Rightarrow> ('k \<times> nat) list" where
  "groupby_size col df =
     map (\<lambda>k. (k, length (filter (\<lambda>r. col r = Some k) df)))
       (sort (remdups (List.map_filter col df)))"

text \<open>\<^verbatim>\<open>year_counts = df.groupby('year').size().reset_index(name='count')\<close> followed by
  \<^verbatim>\<open>year_counts.sort_values('year')\<close>, as in \<^verbatim>\<open>get_publications_by_keyword\<close> and
  \<^verbatim>\<open>get_faculty_publications\<close>.\<close>

definition year_counts :: "'a pub_row_scheme list \<Rightarrow> (int \<times> nat) list" where
  "year_counts df = sort_key fst (groupby_size year df)"




subsection \<open>Scalar statistics\<close>

text \<open>\<^verbatim>\<open>Series.mean()\<close>: the mean of the values that are not null; NaN, here \<open>None\<close>, when
  there is none (in particular on an empty series).\<close>

definition series_mean :: "int option list \<Rightarrow> rat option" where
  "series_mean xs =
     (let vs = List.map_filter id xs in
      if vs = [] then None else Some (of_int (sum_list vs) / of_nat (length vs)))"

text \<open>\<^verbatim>\<open>Series.max()\<close>: the greatest value that is not null; NaN, here \<open>None\<close>, when there
  is none.\<close>

definition series_max :: "int option list \<Rightarrow> int option" where
  "series_max xs =
     (case List.map_filter id xs of [] \<Rightarrow> None | v # vs \<Rightarrow> Some (fold max vs v))"

text \<open>\<^verbatim>\<open>Series.mode()\<close>: the most frequent values among those that are not null, in
  ascending order; empty when every value is null.\<close>

definition series_mode :: "'a::linorder option list \<Rightarrow> 'a list" where
  "series_mode xs =
     (let vs = List.map_filter id xs;
          ks = sort (remdups vs);
          m = fold max (map (count_list vs) ks) 0
      in filter (\<lambda>k. count_list vs k = m) ks)"

section \<open>Exceptions, driver calls and the log\<close>

text \<open>The exceptions the model distinguishes. \<open>DriverFault\<close> stands for any exception that a
  driver call raises and that is not of the class the adapter catches.\<close>

datatype py_exc =
    AttributeError string string
  | KeyError
  | IndexError
  | TypeError
  | ValueError
  | DriverFault

text \<open>What a call into a database driver does: it returns a value, it raises an exception of
  the driver's own error class (\<^verbatim>\<open>mysql.connector.Error\<close>, \<^verbatim>\<open>PyMongoError\<close>), or it raises
  some other exception. The outcomes are parameters of the model: they are the behaviour of
  the servers.\<close>

datatype 'a outcome = Returns 'a | RaisesError | RaisesOther

datatype backend = MySQL | MongoDB | Neo4j

datatype level = INFO | WARNING | ERROR

text \<open>The observable effects of a call, in order: connection attempts, queries sent to a server,
  and log lines (level and the fixed part of the message).\<close>

datatype event = Connect backend | Query backend | Log level string

section \<open>The connection adapters\<close>

subsection \<open>\<^verbatim>\<open>mysql_utils.MySQLConnection\<close>\<close>

text \<open>The driver's connection object; \<open>is_connected\<close> is what its \<^verbatim>\<open>is_connected()\<close>
  answers.\<close>

record mysql_link =
  is_connected :: bool

record MySQLConnection =
  connection :: "mysql_link option"

text \<open>\<^verbatim>\<open>connect\<close>: the first argument is what \<^verbatim>\<open>mysql.connector.connect\<close> does. The result
  is the returned flag or the exception that escapes, the adapter afterwards, and the
  effects.\<close>

definition mysql_connect ::
  "mysql_link outcome \<Rightarrow> MySQLConnection \<Rightarrow> (py_exc + bool) \<times> MySQLConnection \<times> event list" where
  "mysql_connect drv self =
     (case drv of
        Returns c \<Rightarrow>
          if is_connected c
          then (Inr True, self\<lparr>connection := Some c\<rparr>,
                [Connect MySQL, Log INFO ''Successfully connected to MySQL database'']) 
          else (Inr False, self\<lparr>connection := Some c\<rparr>, [Connect MySQL])
      | RaisesError \<Rightarrow>
          (Inr False, self, [Connect MySQL, Log ERROR ''Error connecting to MySQL database''])
      | RaisesOther \<Rightarrow> (Inl DriverFault, self, [Connect MySQL]))"

text \<open>The \<^verbatim>\<open>try\<close> block of \<^verbatim>\<open>execute_query\<close>: cursor, execute, fetchall. The first argument
  is what the server does with this query.\<close>

definition mysql_run_query ::
  "'r list outcome \<Rightarrow> (py_exc + 'r list option) \<times> event list" where
  "mysql_run_query answer =
     (case answer of
        Returns results \<Rightarrow> (Inr (Some results), [Query MySQL])
      | RaisesError \<Rightarrow> (Inr None, [Query MySQL, Log ERROR ''Error executing query''])
      | RaisesOther \<Rightarrow> (Inl DriverFault, [Query MySQL]))"

text \<open>\<^verbatim>\<open>not self.connection or not self.connection.is_connected()\<close>\<close>

definition mysql_stale :: "MySQLConnection \<Rightarrow> bool" where
  "mysql_stale self = (case connection self of None \<Rightarrow> True | Some c \<Rightarrow> \<not> is_connected c)"

definition mysql_execute_query ::
  "mysql_link outcome \<Rightarrow> 'r list outcome \<Rightarrow> MySQLConnection \<Rightarrow>
     (py_exc + 'r list option) \<times> MySQLConnection \<times> event list" where
  "mysql_execute_query drv answer self =
     (if mysql_stale self
      then (case mysql_connect drv self of
              (Inl e, self', ev) \<Rightarrow> (Inl e, self', ev)
            | (Inr ok, self', ev) \<Rightarrow>
                if \<not> ok then (Inr None, self', ev)
                else (case mysql_run_query answer of (res, ev') \<Rightarrow> (res, self', ev @ ev')))
      else (case mysql_run_query answer of (res, ev') \<Rightarrow> (res, self, ev')))"

subsection \<open>\<^verbatim>\<open>neo4j_utils.Neo4jConnection\<close>\<close>

datatype neo4j_driver = GraphDriver

record Neo4jConnection =
  driver :: "neo4j_driver option"

text \<open>An exception raised while connecting is of the classes the adapter names in its first
  handler (\<^verbatim>\<open>ServiceUnavailable\<close>, \<^verbatim>\<open>AuthError\<close>; for MongoDB \<^verbatim>\<open>ConnectionFailure\<close>,
  \<^verbatim>\<open>ServerSelectionTimeoutError\<close>) or it is any other exception.\<close>

datatype failure = Unavailable | Unexpected

text \<open>What the two steps of \<^verbatim>\<open>connect\<close> do: \<^verbatim>\<open>GraphDatabase.driver(...)\<close> raises, or it
  returns a driver and the probe \<^verbatim>\<open>RETURN 1\<close> raises, or the probe succeeds. Every exception
  is caught.\<close>

datatype neo4j_connect_outcome = DriverRaises failure | ProbeRaises failure | ProbeOK

definition neo4j_connect_error :: "failure \<Rightarrow> event" where
  "neo4j_connect_error f =
     (case f of
        Unavailable \<Rightarrow> Log ERROR ''Error connecting to Neo4j''
      | Unexpected \<Rightarrow> Log ERROR ''Unexpected error connecting to Neo4j'')"

definition neo4j_connect ::
  "neo4j_connect_outcome \<Rightarrow> Neo4jConnection \<Rightarrow> bool \<times> Neo4jConnection \<times> event list" where
  "neo4j_connect drv self =
     (case drv of
        DriverRaises f \<Rightarrow> (False, self, [Connect Neo4j, neo4j_connect_error f])
      | ProbeRaises f \<Rightarrow>
          (False, self\<lparr>driver := Some GraphDriver\<rparr>, [Connect Neo4j, neo4j_connect_error f])
      | ProbeOK \<Rightarrow>
          (True, self\<lparr>driver := Some GraphDriver\<rparr>,
           [Connect Neo4j, Log INFO ''Successfully connected to Neo4j'']))"

text \<open>The \<^verbatim>\<open>try\<close> block of \<^verbatim>\<open>execute_query\<close>; it catches \<^verbatim>\<open>Exception\<close>.\<close>

definition neo4j_run_query :: "'r list outcome \<Rightarrow> 'r list option \<times> event list" where
  "neo4j_run_query answer =
     (case answer of
        Returns records \<Rightarrow> (Some records, [Query Neo4j, Log INFO ''Query executed successfully''])
      | RaisesError \<Rightarrow> (None, [Query Neo4j, Log ERROR ''Error executing query''])
      | RaisesOther \<Rightarrow> (None, [Query Neo4j, Log ERROR ''Error executing query'']))"

definition neo4j_execute_query ::
  "neo4j_connect_outcome \<Rightarrow> 'r list outcome \<Rightarrow> Neo4jConnection \<Rightarrow>
     'r list option \<times> Neo4jConnection \<times> event list" where
  "neo4j_execute_query drv answer self =
     (if driver self = None
      then (case neo4j_connect drv self of
              (ok, self', ev) \<Rightarrow>
                if \<not> ok then (None, self', ev)
                else (case neo4j_run_query answer of (res, ev') \<Rightarrow> (res, self', ev @ ev')))
      else (case neo4j_run_query answer of (res, ev') \<Rightarrow> (res, self, ev')))"

subsection \<open>\<^verbatim>\<open>mongodb_utils.MongoDBConnection\<close>\<close>

datatype mongo_client = MongoClient

record MongoDBConnection =
  client :: "mongo_client option"
  database_name :: "string option"

text \<open>The names the class defines: its methods, and the attributes \<^verbatim>\<open>__init__\<close> sets. The
  class defines no \<^verbatim>\<open>__getattr__\<close>, so any other name raises \<^verbatim>\<open>AttributeError\<close>.\<close>

definition MongoDBConnection_methods :: "string list" where
  "MongoDBConnection_methods =
     [''__init__'', ''connect'', ''disconnect'', ''get_database'', ''get_collection'',
      ''insert_document'', ''insert_many_documents'', ''find_documents'',
      ''find_one_document'', ''update_document'', ''update_many_documents'',
      ''delete_document'', ''delete_many_documents'', ''get_collections'', ''get_databases'',
      ''collection_exists'', ''get_document_count'']"

definition MongoDBConnection_fields :: "string list" where
  "MongoDBConnection_fields =
     [''host'', ''port'', ''database_name'', ''username'', ''password'', ''auth_source'',
      ''auth_mechanism'', ''client'', ''database'']"

definition mongodb_getattr :: "string \<Rightarrow> py_exc + string" where
  "mongodb_getattr name =
     (if name \<in> set (MongoDBConnection_methods @ MongoDBConnection_fields)
      then Inr name else Inl (AttributeError ''MongoDBConnection'' name))"

text \<open>What the steps of \<^verbatim>\<open>connect\<close> do: building the client raises, or the client is stored
  and the ping raises, or the ping succeeds. Every exception is caught.\<close>

datatype mongo_connect_outcome = ClientRaises failure | PingRaises failure | PingOK

definition mongodb_connect_error :: "failure \<Rightarrow> event" where
  "mongodb_connect_error f =
     (case f of
        Unavailable \<Rightarrow> Log ERROR ''Error connecting to MongoDB''
      | Unexpected \<Rightarrow> Log ERROR ''Unexpected error connecting to MongoDB'')"

definition mongodb_connect ::
  "mongo_connect_outcome \<Rightarrow> MongoDBConnection \<Rightarrow> bool \<times> MongoDBConnection \<times> event list" where
  "mongodb_connect drv self =
     (case drv of
        ClientRaises f \<Rightarrow> (False, self, [Connect MongoDB, mongodb_connect_error f])
      | PingRaises f \<Rightarrow>
          (False, self\<lparr>client := Some MongoClient\<rparr>, [Connect MongoDB, mongodb_connect_error f])
      | PingOK \<Rightarrow>
          (True, self\<lparr>client := Some MongoClient\<rparr>,
           [Connect MongoDB, Log INFO ''Successfully connected to MongoDB'']))"

text \<open>\<^verbatim>\<open>find_documents\<close> with the default database name, through \<^verbatim>\<open>get_collection\<close> and
  \<^verbatim>\<open>get_database\<close>. The second argument is what the driver does from the lookup of the
  database object to the end of the cursor.\<close>

definition find_documents ::
  "mongo_connect_outcome \<Rightarrow> 'd list outcome \<Rightarrow> MongoDBConnection \<Rightarrow>
     (py_exc + 'd list option) \<times> MongoDBConnection \<times> event list" where
  "find_documents drv answer self =
     (case (if client self = None then mongodb_connect drv self else (True, self, [])) of
        (ok, self', ev) \<Rightarrow>
          if \<not> ok then (Inr None, self', ev)
          else if database_name self' = None \<or> database_name self' = Some []
          then (Inr None, self', ev @ [Log ERROR ''No database name specified''])
          else (case answer of
                  Returns documents \<Rightarrow>
                    (Inr (Some documents), self', ev @ [Query MongoDB, Log INFO ''Found documents''])
                | RaisesError \<Rightarrow>
                    (Inr None, self', ev @ [Query MongoDB, Log ERROR ''Error finding documents''])
                | RaisesOther \<Rightarrow> (Inl DriverFault, self', ev @ [Query MongoDB])))"

section \<open>The dashboard (\<^verbatim>\<open>app.py\<close>)\<close>

text \<open>The module's three global handles, and what each server does when an adapter
  connects to it.\<close>

record world =
  mysql_conn :: "MySQLConnection option"
  mongodb_conn :: "MongoDBConnection option"
  neo4j_conn :: "Neo4jConnection option"
  mysql_server :: "mysql_link outcome"
  mongodb_server :: mongo_connect_outcome
  neo4j_server :: neo4j_connect_outcome

text \<open>What the widgets return: a figure and an information line. A figure carries the data
  that is plotted; an information line carries the values that its f-string interpolates.\<close>

datatype figure =
    Annotation string
  | BarChart "(int \<times> nat) list"
  | ScatterPlot "(int option \<times> int option) list"
  | PieChart "string list" "int list"
  | ComparisonChart "(string \<times> int \<times> rat) list"
  | LineChart "(int \<times> int) list"

datatype info =
    Text string
  | ErrorText string py_exc
  | FoundPublications nat "rat option" string
  | ShowingPublications nat "rat option" "int option"
  | ComparisonInfo int rat string string
  | KeywordInfo int string nat
  | TimeseriesInfo int rat string

subsection \<open>\<^verbatim>\<open>get_publications_by_keyword\<close> and \<^verbatim>\<open>get_all_publications\<close>\<close>

text \<open>\<^verbatim>\<open>df['venue'].mode().iloc[0] if len(df) > 0 else 'N/A'\<close>; \<^verbatim>\<open>iloc[0]\<close> raises
  \<^verbatim>\<open>IndexError\<close> on an empty result.\<close>

definition top_venue :: "'a pub_row_scheme list \<Rightarrow> py_exc + string" where
  "top_venue df =
     (if length df > 0
      then (case series_mode (map venue df) of [] \<Rightarrow> Inl IndexError | v # _ \<Rightarrow> Inr v)
      else Inr ''N/A'')"

text \<open>The statistics of \<^verbatim>\<open>get_publications_by_keyword\<close>: \<^verbatim>\<open>total_pubs\<close>,
  \<^verbatim>\<open>avg_citations\<close>, \<^verbatim>\<open>top_venue\<close>. The frame is built with a \<^verbatim>\<open>citations\<close> column, so
  \<^verbatim>\<open>'citations' in df.columns\<close> holds.\<close>

definition keyword_statistics :: "'a pub_row_scheme list \<Rightarrow> py_exc + info" where
  "keyword_statistics df =
     (case top_venue df of
        Inl e \<Rightarrow> Inl e
      | Inr v \<Rightarrow> Inr (FoundPublications (length df) (series_mean (map citations df)) v))"

text \<open>The statistics of \<^verbatim>\<open>get_all_publications\<close>: \<^verbatim>\<open>total_pubs\<close>, \<^verbatim>\<open>avg_citations\<close>,
  \<^verbatim>\<open>max_citations\<close>.\<close>

definition all_statistics :: "'a pub_row_scheme list \<Rightarrow> info" where
  "all_statistics df =
     ShowingPublications (length df) (series_mean (map citations df))
       (series_max (map citations df))"

text \<open>\<^verbatim>\<open>mysql_conn and mysql_conn.connection\<close>\<close>

definition mysql_available :: "world \<Rightarrow> MySQLConnection option" where
  "mysql_available w =
     (case mysql_conn w of
        None \<Rightarrow> None
      | Some conn \<Rightarrow> if connection conn = None then None else Some conn)"

text \<open>\<^verbatim>\<open>'{x}'\<close> inside an f-string: the text between single quotes.\<close>

definition quoted :: "string \<Rightarrow> string" where
  "quoted x = [CHR 0x27] @ x @ [CHR 0x27]"

definition get_publications_by_keyword ::
  "world \<Rightarrow> 'a pub_row_scheme list outcome \<Rightarrow> string \<Rightarrow> (figure \<times> info) \<times> event list" where
  "get_publications_by_keyword w answer keyword =
     (case mysql_available w of
        None \<Rightarrow> ((Annotation ''MySQL not connected'', Text ''MySQL connection not available''), [])
      | Some conn \<Rightarrow>
          (case mysql_execute_query (mysql_server w) answer conn of
             (Inl e, _, ev) \<Rightarrow>
               ((Annotation ''Error'', ErrorText ''Error searching publications'' e), ev)
           | (Inr (Some (r # rs)), _, ev) \<Rightarrow>
               (case keyword_statistics (r # rs) of
                  Inl e \<Rightarrow> ((Annotation ''Error'', ErrorText ''Error searching publications'' e), ev)
                | Inr i \<Rightarrow> ((BarChart (year_counts (r # rs)), i), ev))
           | (Inr _, _, ev) \<Rightarrow>
               ((Annotation (''No publications found containing '' @ quoted keyword),
                 Text (''No publications found for keyword: '' @ keyword)), ev)))"

text \<open>\<^verbatim>\<open>px.scatter(df, ..., size='citations', ...)\<close> takes the marker sizes from the
  citations and raises \<^verbatim>\<open>ValueError\<close> when one of them is not a number or is negative.\<close>

definition scatter_sizes :: "'a pub_row_scheme list \<Rightarrow> py_exc + int list" where
  "scatter_sizes df =
     (if list_all (\<lambda>p. case citations p of None \<Rightarrow> False | Some c \<Rightarrow> 0 \<le> c) df
      then Inr (List.map_filter citations df) else Inl ValueError)"

definition get_all_publications ::
  "world \<Rightarrow> 'a pub_row_scheme list outcome \<Rightarrow> (figure \<times> info) \<times> event list" where
  "get_all_publications w answer =
     (case mysql_available w of
        None \<Rightarrow> ((Annotation ''MySQL not connected'', Text ''MySQL connection not available''), [])
      | Some conn \<Rightarrow>
          (case mysql_execute_query (mysql_server w) answer conn of
             (Inl e, _, ev) \<Rightarrow>
               ((Annotation ''Error'', ErrorText ''Error retrieving publications'' e), ev)
           | (Inr (Some (r # rs)), _, ev) \<Rightarrow>
               (case scatter_sizes (r # rs) of
                  Inl e \<Rightarrow> ((Annotation ''Error'', ErrorText ''Error retrieving publications'' e), ev)
                | Inr sizes \<Rightarrow>
                    ((ScatterPlot (map (\<lambda>p. (year p, citations p)) (r # rs)),
                      all_statistics (r # rs)), ev))
           | (Inr _, _, ev) \<Rightarrow>
               ((Annotation ''No publications found in database'',
                 Text ''No publications found in database''), ev)))"

subsection \<open>\<^verbatim>\<open>compare_keywords\<close> and \<^verbatim>\<open>get_keyword_comparison\<close>\<close>

text \<open>A row of the comparison query: \<^verbatim>\<open>COUNT(*)\<close>, \<^verbatim>\<open>AVG(citations)\<close>,
  \<^verbatim>\<open>MAX(citations)\<close>, \<^verbatim>\<open>MIN(year)\<close>, \<^verbatim>\<open>MAX(year)\<close>, \<^verbatim>\<open>COUNT(DISTINCT venue)\<close>.\<close>

type_synonym comparison_row =
  "int option \<times> rat option \<times> int option \<times> int option \<times> int option \<times> int option"

record keyword_data =
  keyword :: string
  publication_count :: int
  avg_citations :: rat
  max_citations :: int
  earliest_year :: int
  latest_year :: int
  unique_venues :: int

text \<open>\<^verbatim>\<open>x or 0\<close> on a nullable number.\<close>

definition or_zero :: "'n::zero option \<Rightarrow> 'n" where
  "or_zero x = (case x of None \<Rightarrow> 0 | Some n \<Rightarrow> n)"

text \<open>One iteration's entry: from \<^verbatim>\<open>results[0]\<close> when there is a row, zeros otherwise.\<close>

definition keyword_entry :: "string \<Rightarrow> comparison_row list option \<Rightarrow> keyword_data" where
  "keyword_entry kw results =
     (case results of
        Some ((r0, r1, r2, r3, r4, r5) # _) \<Rightarrow>
          \<lparr>keyword = kw, publication_count = or_zero r0, avg_citations = or_zero r1,
           max_citations = or_zero r2, earliest_year = or_zero r3, latest_year = or_zero r4,
           unique_venues = or_zero r5\<rparr>
      | _ \<Rightarrow>
          \<lparr>keyword = kw, publication_count = 0, avg_citations = 0, max_citations = 0,
           earliest_year = 0, latest_year = 0, unique_venues = 0\<rparr>)"

text \<open>The loop \<^verbatim>\<open>for keyword in keywords\<close>: one query per keyword on the shared handle; an
  exception that escapes the adapter ends the loop.\<close>

fun collect_keyword_data ::
  "mysql_link outcome \<Rightarrow> (string \<Rightarrow> comparison_row list outcome) \<Rightarrow> MySQLConnection \<Rightarrow>
     string list \<Rightarrow> (py_exc + keyword_data list) \<times> event list" where
  "collect_keyword_data drv answer conn [] = (Inr [], [])"
| "collect_keyword_data drv answer conn (kw # kws) =
     (case mysql_execute_query drv (answer kw) conn of
        (Inl e, _, ev) \<Rightarrow> (Inl e, ev)
      | (Inr results, conn', ev) \<Rightarrow>
          (case collect_keyword_data drv answer conn' kws of
             (Inl e, ev') \<Rightarrow> (Inl e, ev @ ev')
           | (Inr data, ev') \<Rightarrow> (Inr (keyword_entry kw results # data), ev @ ev')))"

text \<open>\<^verbatim>\<open>idxmax\<close>: the first row that holds the greatest value.\<close>

fun idxmax :: "('a \<Rightarrow> 'v::linorder) \<Rightarrow> 'a \<Rightarrow> 'a list \<Rightarrow> 'a" where
  "idxmax f best [] = best"
| "idxmax f best (x # xs) = idxmax f (if f best < f x then x else best) xs"

definition comparison_summary :: "keyword_data \<Rightarrow> keyword_data list \<Rightarrow> info" where
  "comparison_summary d ds =
     ComparisonInfo
       (sum_list (map publication_count (d # ds)))
       (sum_list (map avg_citations (d # ds)) / of_nat (length (d # ds)))
       (keyword (idxmax publication_count d ds))
       (keyword (idxmax avg_citations d ds))"

definition get_keyword_comparison ::
  "world \<Rightarrow> (string \<Rightarrow> comparison_row list outcome) \<Rightarrow> string list \<Rightarrow>
     (figure \<times> info) \<times> event list" where
  "get_keyword_comparison w answer keywords =
     (case mysql_available w of
        None \<Rightarrow> ((Annotation ''MySQL not connected'', Text ''MySQL connection not available''), [])
      | Some conn \<Rightarrow>
          (case collect_keyword_data (mysql_server w) answer conn keywords of
             (Inl e, ev) \<Rightarrow> ((Annotation ''Error'', ErrorText ''Error comparing keywords'' e), ev)
           | (Inr [], ev) \<Rightarrow>
               ((Annotation ''No data found for any keywords'',
                 Text ''No data found for any keywords''), ev)
           | (Inr (d # ds), ev) \<Rightarrow>
               ((ComparisonChart
                   (map (\<lambda>k. (keyword k, publication_count k, avg_citations k)) (d # ds)),
                 comparison_summary d ds), ev)))"

text \<open>\<^verbatim>\<open>[kw.strip() for kw in [...] if kw and kw.strip()]\<close>; an input that was never filled
  is \<^verbatim>\<open>None\<close>.\<close>

definition entered_keywords :: "string option list \<Rightarrow> string list" where
  "entered_keywords kws =
     List.map_filter
       (\<lambda>kw. case kw of
                None \<Rightarrow> None
              | Some s \<Rightarrow> if s \<noteq> [] \<and> strip s \<noteq> [] then Some (strip s) else None) kws"

text \<open>\<^verbatim>\<open>n_clicks\<close> is \<^verbatim>\<open>None\<close> or a number; \<^verbatim>\<open>not n_clicks\<close> holds for \<^verbatim>\<open>None\<close> and 0.
  \<^verbatim>\<open>get_keyword_comparison\<close> catches every exception itself, so the callback's own handler
  has nothing to catch.\<close>

definition compare_keywords ::
  "world \<Rightarrow> (string \<Rightarrow> comparison_row list outcome) \<Rightarrow> int option \<Rightarrow>
     string option \<Rightarrow> string option \<Rightarrow> string option \<Rightarrow> string option \<Rightarrow> string option \<Rightarrow>
     (figure \<times> info) \<times> event list" where
  "compare_keywords w answer n_clicks keyword1 keyword2 keyword3 keyword4 keyword5 =
     (if n_clicks = None \<or> n_clicks = Some 0
      then ((Annotation ''Enter 5 keywords and click 'Compare Keywords' to see comparison'',
             Text ''Enter 5 keywords to compare their publication statistics''), [])
      else
        (let keywords = entered_keywords [keyword1, keyword2, keyword3, keyword4, keyword5] in
         if length keywords < 2
         then ((Annotation ''Please enter at least 2 keywords to compare'',
                Text ''Please enter at least 2 keywords to compare''), [])
         else get_keyword_comparison w answer keywords))"

subsection \<open>\<^verbatim>\<open>get_university_keywords\<close>\<close>

definition get_university_keywords ::
  "world \<Rightarrow> keyword_row list outcome \<Rightarrow> string \<Rightarrow> (figure \<times> info) \<times> event list" where
  "get_university_keywords w answer university_name =
     (case mysql_available w of
        None \<Rightarrow> ((Annotation ''MySQL not connected'', Text ''MySQL connection not available''), [])
      | Some conn \<Rightarrow>
          (case mysql_execute_query (mysql_server w) answer conn of
             (Inl e, _, ev) \<Rightarrow>
               ((Annotation ''Error'', ErrorText ''Error analyzing university keywords'' e), ev)
           | (Inr (Some (r # rs)), _, ev) \<Rightarrow>
               (case sorted_keywords (r # rs) of
                  [] \<Rightarrow>
                    ((Annotation (''No keywords found for '' @ university_name),
                      Text (''No keywords found for '' @ university_name)), ev)
                | (k, c) # kcs \<Rightarrow>
                    ((PieChart (map fst ((k, c) # kcs)) (map snd ((k, c) # kcs)),
                      KeywordInfo (sum_list (map snd ((k, c) # kcs))) k
                        (length (keyword_counts (r # rs)))), ev))
           | (Inr _, _, ev) \<Rightarrow>
               ((Annotation (''No data found for '' @ university_name),
                 Text (''No data found for '' @ university_name)), ev)))"

subsection \<open>Python values, dictionaries and the report\<close>

datatype pyval = PyNone | PyInt int | PyStr string | PyList "pyval list"

fun truthy :: "pyval \<Rightarrow> bool" where
  "truthy PyNone = False"
| "truthy (PyInt n) = (n \<noteq> 0)"
| "truthy (PyStr s) = (s \<noteq> [])"
| "truthy (PyList xs) = (xs \<noteq> [])"

text \<open>\<^verbatim>\<open>x or d\<close>\<close>

definition or_default :: "pyval \<Rightarrow> pyval \<Rightarrow> pyval" where
  "or_default x d = (if truthy x then x else d)"

text \<open>A dictionary key is a number or a string; a number never equals a string.\<close>

datatype key = IntKey int | StrKey string

text \<open>\<^verbatim>\<open>d[k]\<close> and \<^verbatim>\<open>d.get(k, default)\<close> on a dictionary given by its items.\<close>

definition getitem :: "(key \<times> 'v) list \<Rightarrow> key \<Rightarrow> py_exc + 'v" where
  "getitem d k = (case map_of d k of None \<Rightarrow> Inl KeyError | Some v \<Rightarrow> Inr v)"

definition dict_get :: "(key \<times> 'v) list \<Rightarrow> key \<Rightarrow> 'v \<Rightarrow> 'v" where
  "dict_get d k dflt = (case map_of d k of None \<Rightarrow> dflt | Some v \<Rightarrow> v)"

text \<open>A MongoDB document and a Neo4j record (\<^verbatim>\<open>dict(record)\<close>) are dictionaries whose keys
  are field names, that is, strings.\<close>

type_synonym 'v fields = "(string \<times> 'v) list"

definition as_dict :: "'v fields \<Rightarrow> (key \<times> 'v) list" where
  "as_dict r = map (\<lambda>(name, v). (StrKey name, v)) r"

text \<open>Sequencing of steps that may raise.\<close>

definition try_bind :: "py_exc + 'a \<Rightarrow> ('a \<Rightarrow> py_exc + 'b) \<Rightarrow> py_exc + 'b" where
  "try_bind m f = (case m of Inl e \<Rightarrow> Inl e | Inr x \<Rightarrow> f x)"

text \<open>The report of the person search is a list of headings (\<^verbatim>\<open>html.H5\<close>) and cards
  (\<^verbatim>\<open>html.Div\<close>); a card is its labelled lines.\<close>

datatype element = H5 string | Div "(string \<times> pyval) list"

datatype report = NotFound string | SearchResults string "element list"

text \<open>\<^verbatim>\<open>for x in xs: all_results.append(mk(x))\<close> where building a card may raise: the
  elements appended so far stay in the list.\<close>

fun append_each :: "('d \<Rightarrow> py_exc + 'e) \<Rightarrow> 'd list \<Rightarrow> 'e list \<times> py_exc option" where
  "append_each mk [] = ([], None)"
| "append_each mk (d # ds) =
     (case mk d of
        Inl e \<Rightarrow> ([], Some e)
      | Inr el \<Rightarrow> (case append_each mk ds of (els, x) \<Rightarrow> (el # els, x)))"

text \<open>\<^verbatim>\<open>if results: all_results.append(heading); for x in results: ...\<close>\<close>

definition add_section ::
  "string \<Rightarrow> ('d \<Rightarrow> py_exc + element) \<Rightarrow> 'd list option \<Rightarrow> element list \<times> py_exc option" where
  "add_section heading mk results =
     (case results of
        Some (d # ds) \<Rightarrow> (case append_each mk (d # ds) of (els, x) \<Rightarrow> (H5 heading # els, x))
      | _ \<Rightarrow> ([], None))"

subsection \<open>\<^verbatim>\<open>get_person_information\<close>\<close>

text \<open>The rows of the two MySQL queries, as tuples in the order of their select lists:
  \<^verbatim>\<open>id, name, email, phone, position, research, interests, department, university\<close> and
  \<^verbatim>\<open>title, year, venue, citations\<close>.\<close>

type_synonym faculty_tuple =
  "pyval \<times> pyval \<times> pyval \<times> pyval \<times> pyval \<times> pyval \<times> pyval \<times> pyval \<times> pyval"

type_synonym pub_tuple = "pyval \<times> pyval \<times> pyval \<times> pyval"

fun mysql_faculty_card :: "faculty_tuple \<Rightarrow> element" where
  "mysql_faculty_card (f0, f1, f2, f3, f4, f5, f6, f7, f8) =
     Div [(''Name'', f1),
          (''Email'', or_default f2 (PyStr ''N/A'')),
          (''Position'', or_default f4 (PyStr ''N/A'')),
          (''Department'', or_default f7 (PyStr ''N/A'')),
          (''University'', or_default f8 (PyStr ''N/A'')),
          (''Research'', or_default f5 (PyStr ''N/A'')),
          (''Interests'', or_default f6 (PyStr ''N/A''))]"

fun mysql_pub_card :: "pub_tuple \<Rightarrow> element" where
  "mysql_pub_card (p0, p1, p2, p3) =
     Div [(''Title'', p0),
          (''Year'', or_default p1 (PyStr ''N/A'')),
          (''Venue'', or_default p2 (PyStr ''N/A'')),
          (''Citations'', or_default p3 (PyInt 0))]"

text \<open>\<^verbatim>\<open>', '.join(x)\<close>: \<open>x\<close> must be a list of strings or a string, whose characters are
  then joined.\<close>

fun join_comma :: "string list \<Rightarrow> string" where
  "join_comma [] = []"
| "join_comma [s] = s"
| "join_comma (s # t # ts) = s @ '', '' @ join_comma (t # ts)"

fun the_strings :: "pyval list \<Rightarrow> string list option" where
  "the_strings [] = Some []"
| "the_strings (PyStr s # xs) = (case the_strings xs of None \<Rightarrow> None | Some ss \<Rightarrow> Some (s # ss))"
| "the_strings (_ # xs) = None"

definition join_value :: "pyval \<Rightarrow> py_exc + pyval" where
  "join_value x =
     (case x of
        PyList xs \<Rightarrow> (case the_strings xs of None \<Rightarrow> Inl TypeError | Some ss \<Rightarrow> Inr (PyStr (join_comma ss)))
      | PyStr s \<Rightarrow> Inr (PyStr (join_comma (map (\<lambda>c. [c]) s)))
      | _ \<Rightarrow> Inl TypeError)"

text \<open>\<^verbatim>\<open>', '.join(d.get(k, [])) if d.get(k) else 'N/A'\<close>\<close>

definition joined_or_na :: "pyval fields \<Rightarrow> string \<Rightarrow> py_exc + pyval" where
  "joined_or_na d k =
     (if truthy (dict_get (as_dict d) (StrKey k) PyNone)
      then join_value (dict_get (as_dict d) (StrKey k) (PyList []))
      else Inr (PyStr ''N/A''))"

definition mongodb_faculty_card :: "pyval fields \<Rightarrow> py_exc + element" where
  "mongodb_faculty_card faculty =
     try_bind (joined_or_na faculty ''research_areas'') (\<lambda>areas.
       Inr (Div [(''Name'', dict_get (as_dict faculty) (StrKey ''name'') (PyStr ''N/A'')),
                 (''Email'', dict_get (as_dict faculty) (StrKey ''email'') (PyStr ''N/A'')),
                 (''Position'', dict_get (as_dict faculty) (StrKey ''position'') (PyStr ''N/A'')),
                 (''Department'', dict_get (as_dict faculty) (StrKey ''department'') (PyStr ''N/A'')),
                 (''Research Areas'', areas)]))"

definition mongodb_pub_card :: "pyval fields \<Rightarrow> py_exc + element" where
  "mongodb_pub_card pub =
     try_bind (joined_or_na pub ''authors'') (\<lambda>authors.
       Inr (Div [(''Title'', dict_get (as_dict pub) (StrKey ''title'') (PyStr ''N/A'')),
                 (''Year'', dict_get (as_dict pub) (StrKey ''year'') (PyStr ''N/A'')),
                 (''Authors'', authors),
                 (''Citations'', dict_get (as_dict pub) (StrKey ''citations'') (PyInt 0))]))"

text \<open>The Neo4j cards index the record dictionaries by position: \<^verbatim>\<open>person[0]\<close>,
  \<^verbatim>\<open>person[1]\<close>, ...\<close>

definition neo4j_person_card :: "pyval fields \<Rightarrow> py_exc + element" where
  "neo4j_person_card person =
     try_bind (getitem (as_dict person) (IntKey 0)) (\<lambda>x0.
     try_bind (getitem (as_dict person) (IntKey 1)) (\<lambda>x1.
     try_bind (getitem (as_dict person) (IntKey 2)) (\<lambda>x2.
     try_bind (getitem (as_dict person) (IntKey 3)) (\<lambda>x3.
       Inr (Div [(''Name'', or_default x0 (PyStr ''N/A'')),
                 (''Email'', or_default x1 (PyStr ''N/A'')),
                 (''Position'', or_default x2 (PyStr ''N/A'')),
                 (''Department'', or_default x3 (PyStr ''N/A''))])))))"

definition neo4j_pub_card :: "pyval fields \<Rightarrow> py_exc + element" where
  "neo4j_pub_card pub =
     try_bind (getitem (as_dict pub) (IntKey 0)) (\<lambda>x0.
     try_bind (getitem (as_dict pub) (IntKey 1)) (\<lambda>x1.
     try_bind (getitem (as_dict pub) (IntKey 2)) (\<lambda>x2.
     try_bind (getitem (as_dict pub) (IntKey 3)) (\<lambda>x3.
       Inr (Div [(''Title'', or_default x0 (PyStr ''N/A'')),
                 (''Year'', or_default x1 (PyStr ''N/A'')),
                 (''Venue'', or_default x2 (PyStr ''N/A'')),
                 (''Citations'', or_default x3 (PyInt 0))])))))"

definition neo4j_collab_card :: "pyval fields \<Rightarrow> py_exc + element" where
  "neo4j_collab_card collab =
     try_bind (getitem (as_dict collab) (IntKey 0)) (\<lambda>x0.
     try_bind (getitem (as_dict collab) (IntKey 1)) (\<lambda>x1.
       Inr (Div [(''Collaborator'', or_default x0 (PyStr ''N/A'')),
                 (''Joint Publications'', or_default x1 (PyInt 0))])))"

text \<open>What the servers do with the seven queries of one person search.\<close>

record person_answers =
  faculty_rows :: "faculty_tuple list outcome"
  pub_rows :: "pub_tuple list outcome"
  faculty_docs :: "pyval fields list outcome"
  pub_docs :: "pyval fields list outcome"
  person_records :: "pyval fields list outcome"
  pub_records :: "pyval fields list outcome"
  collab_records :: "pyval fields list outcome"

text \<open>The three guarded \<^verbatim>\<open>try\<close> blocks. Each gives the elements it appended to
  \<^verbatim>\<open>all_results\<close> and its effects; an exception ends the block with a warning and leaves
  what was appended before.\<close>

definition mysql_person_search :: "world \<Rightarrow> person_answers \<Rightarrow> element list \<times> event list" where
  "mysql_person_search w a =
     (case mysql_available w of
        None \<Rightarrow> ([], [])
      | Some conn \<Rightarrow>
          (case mysql_execute_query (mysql_server w) (faculty_rows a) conn of
             (Inl e, _, ev) \<Rightarrow> ([], ev @ [Log WARNING ''MySQL person search failed''])
           | (Inr faculty_results, conn', ev) \<Rightarrow>
               (case add_section ''MySQL - Faculty Information'' (\<lambda>f. Inr (mysql_faculty_card f))
                       faculty_results of
                  (els1, Some e) \<Rightarrow> (els1, ev @ [Log WARNING ''MySQL person search failed''])
                | (els1, None) \<Rightarrow>
                    (case mysql_execute_query (mysql_server w) (pub_rows a) conn' of
                       (Inl e, _, ev') \<Rightarrow>
                         (els1, ev @ ev' @ [Log WARNING ''MySQL person search failed''])
                     | (Inr pub_results, _, ev') \<Rightarrow>
                         (case add_section ''MySQL - Publications'' (\<lambda>p. Inr (mysql_pub_card p))
                                 pub_results of
                            (els2, Some e) \<Rightarrow>
                              (els1 @ els2, ev @ ev' @ [Log WARNING ''MySQL person search failed''])
                          | (els2, None) \<Rightarrow> (els1 @ els2, ev @ ev'))))))"

text \<open>\<^verbatim>\<open>mongodb_conn and mongodb_conn.client\<close>\<close>

definition mongodb_available :: "world \<Rightarrow> MongoDBConnection option" where
  "mongodb_available w =
     (case mongodb_conn w of
        None \<Rightarrow> None
      | Some conn \<Rightarrow> if client conn = None then None else Some conn)"

definition mongodb_person_search :: "world \<Rightarrow> person_answers \<Rightarrow> element list \<times> event list" where
  "mongodb_person_search w a =
     (case mongodb_available w of
        None \<Rightarrow> ([], [])
      | Some conn \<Rightarrow>
          (case find_documents (mongodb_server w) (faculty_docs a) conn of
             (Inl e, _, ev) \<Rightarrow> ([], ev @ [Log WARNING ''MongoDB person search failed''])
           | (Inr faculty_results, conn', ev) \<Rightarrow>
               (case add_section ''MongoDB - Faculty Information'' mongodb_faculty_card faculty_results of
                  (els1, Some e) \<Rightarrow> (els1, ev @ [Log WARNING ''MongoDB person search failed''])
                | (els1, None) \<Rightarrow>
                    (case find_documents (mongodb_server w) (pub_docs a) conn' of
                       (Inl e, _, ev') \<Rightarrow>
                         (els1, ev @ ev' @ [Log WARNING ''MongoDB person search failed''])
                     | (Inr pub_results, _, ev') \<Rightarrow>
                         (case add_section ''MongoDB - Publications'' mongodb_pub_card pub_results of
                            (els2, Some e) \<Rightarrow>
                              (els1 @ els2, ev @ ev' @ [Log WARNING ''MongoDB person search failed''])
                          | (els2, None) \<Rightarrow> (els1 @ els2, ev @ ev'))))))"

text \<open>\<^verbatim>\<open>neo4j_conn and neo4j_conn.driver\<close>\<close>

definition neo4j_available :: "world \<Rightarrow> Neo4jConnection option" where
  "neo4j_available w =
     (case neo4j_conn w of
        None \<Rightarrow> None
      | Some conn \<Rightarrow> if driver conn = None then None else Some conn)"

definition neo4j_person_search :: "world \<Rightarrow> person_answers \<Rightarrow> element list \<times> event list" where
  "neo4j_person_search w a =
     (case neo4j_available w of
        None \<Rightarrow> ([], [])
      | Some conn \<Rightarrow>
          (case neo4j_execute_query (neo4j_server w) (person_records a) conn of
             (person_results, conn1, ev1) \<Rightarrow>
          (case add_section ''Neo4j - Person Information'' neo4j_person_card person_results of
             (els1, Some e) \<Rightarrow> (els1, ev1 @ [Log WARNING ''Neo4j person search failed''])
           | (els1, None) \<Rightarrow>
          (case neo4j_execute_query (neo4j_server w) (pub_records a) conn1 of
             (pub_results, conn2, ev2) \<Rightarrow>
          (case add_section ''Neo4j - Publications'' neo4j_pub_card pub_results of
             (els2, Some e) \<Rightarrow>
               (els1 @ els2, ev1 @ ev2 @ [Log WARNING ''Neo4j person search failed''])
           | (els2, None) \<Rightarrow>
          (case neo4j_execute_query (neo4j_server w) (collab_records a) conn2 of
             (collab_results, _, ev3) \<Rightarrow>
          (case add_section ''Neo4j - Top Collaborators'' neo4j_collab_card collab_results of
             (els3, Some e) \<Rightarrow>
               (els1 @ els2 @ els3,
                ev1 @ ev2 @ ev3 @ [Log WARNING ''Neo4j person search failed''])
           | (els3, None) \<Rightarrow> (els1 @ els2 @ els3, ev1 @ ev2 @ ev3))))))))"

definition get_person_information ::
  "world \<Rightarrow> person_answers \<Rightarrow> string \<Rightarrow> report \<times> event list" where
  "get_person_information w a person_name =
     (case mysql_person_search w a of (r1, ev1) \<Rightarrow>
      case mongodb_person_search w a of (r2, ev2) \<Rightarrow>
      case neo4j_person_search w a of (r3, ev3) \<Rightarrow>
        (let all_results = r1 @ r2 @ r3 in
         (if all_results = [] then NotFound person_name
          else SearchResults person_name all_results,
          ev1 @ ev2 @ ev3)))"

subsection \<open>\<^verbatim>\<open>get_timeseries_widget_data\<close>\<close>

text \<open>An entry of \<^verbatim>\<open>publication_data\<close>. A date is the ordinal of its day
  (\<^verbatim>\<open>date.toordinal()\<close>).\<close>

record data_point =
  date :: int
  count :: int
  source :: string

text \<open>What the servers do with the three queries of the widget. Rows and documents are
  given by the day and the number of publications they hold.\<close>

record timeseries_answers =
  mysql_dates :: "(int \<times> int) list outcome"
  mongodb_dates :: "(int \<times> int) list outcome"
  neo4j_dates :: "int fields list outcome"

text \<open>The MySQL block reads its rows by position: \<^verbatim>\<open>row[0]\<close>, \<^verbatim>\<open>row[1]\<close>.\<close>

definition mysql_timeseries :: "world \<Rightarrow> timeseries_answers \<Rightarrow> data_point list \<times> event list" where
  "mysql_timeseries w a =
     (case mysql_available w of
        None \<Rightarrow> ([], [])
      | Some conn \<Rightarrow>
          (case mysql_execute_query (mysql_server w) (mysql_dates a) conn of
             (Inl e, _, ev) \<Rightarrow> ([], ev @ [Log WARNING ''MySQL publications query failed''])
           | (Inr (Some results), _, ev) \<Rightarrow>
               (map (\<lambda>(d, c). \<lparr>date = d, count = c, source = ''MySQL''\<rparr>) results, ev)
           | (Inr None, _, ev) \<Rightarrow> ([], ev)))"

text \<open>The MongoDB block calls \<^verbatim>\<open>mongodb_conn.execute_aggregation(...)\<close>; the attribute is
  looked up on the adapter first. The second argument is \<^verbatim>\<open>publication_data\<close> so far.\<close>

definition mongodb_timeseries ::
  "world \<Rightarrow> timeseries_answers \<Rightarrow> data_point list \<Rightarrow> data_point list \<times> event list" where
  "mongodb_timeseries w a publication_data =
     (case mongodb_available w of
        None \<Rightarrow> ([], [])
      | Some conn \<Rightarrow>
          if publication_data \<noteq> [] then ([], [])
          else (case mongodb_getattr ''execute_aggregation'' of
                  Inl e \<Rightarrow> ([], [Log WARNING ''MongoDB publications query failed''])
                | Inr method \<Rightarrow>
                    (case mongodb_dates a of
                       Returns documents \<Rightarrow>
                         (map (\<lambda>(d, c). \<lparr>date = d, count = c, source = ''MongoDB''\<rparr>) documents,
                          [Query MongoDB])
                     | _ \<Rightarrow> ([], [Query MongoDB, Log WARNING ''MongoDB publications query failed'']))))"

text \<open>The Neo4j block reads the record dictionaries by position as well.\<close>

definition neo4j_point :: "int fields \<Rightarrow> py_exc + data_point" where
  "neo4j_point row =
     try_bind (getitem (as_dict row) (IntKey 0)) (\<lambda>d.
     try_bind (getitem (as_dict row) (IntKey 1)) (\<lambda>c.
       Inr \<lparr>date = d, count = c, source = ''Neo4j''\<rparr>))"

definition neo4j_timeseries ::
  "world \<Rightarrow> timeseries_answers \<Rightarrow> data_point list \<Rightarrow> data_point list \<times> event list" where
  "neo4j_timeseries w a publication_data =
     (case neo4j_available w of
        None \<Rightarrow> ([], [])
      | Some conn \<Rightarrow>
          if publication_data \<noteq> [] then ([], [])
          else (case neo4j_execute_query (neo4j_server w) (neo4j_dates a) conn of
                  (Some results, _, ev) \<Rightarrow>
                    (case append_each neo4j_point results of
                       (points, Some e) \<Rightarrow>
                         (points, ev @ [Log WARNING ''Neo4j publications query failed''])
                     | (points, None) \<Rightarrow> (points, ev))
                | (None, _, ev) \<Rightarrow> ([], ev)))"

text \<open>\<^verbatim>\<open>datetime.weekday()\<close>: Monday is 0; day 1 of the ordinal calendar is a Monday.\<close>

definition weekday :: "int \<Rightarrow> int" where
  "weekday d = (d + 6) mod 7"

text \<open>The loop \<^verbatim>\<open>while current_date <= end_date\<close> of the sample data. \<open>randint i\<close> is what
  the \<open>i\<close>-th call of \<^verbatim>\<open>random.randint(-2, 3)\<close> returns.\<close>

function sample_loop :: "(nat \<Rightarrow> int) \<Rightarrow> int \<Rightarrow> int \<Rightarrow> nat \<Rightarrow> data_point list" where
  "sample_loop randint current_date end_date i =
     (if current_date \<le> end_date
      then (let base_count = (if weekday current_date < 5 then 5 else 2);
                c = max 0 (base_count + randint i)
            in \<lparr>date = current_date, count = c, source = ''Sample Data''\<rparr>
                 # sample_loop randint (current_date + 1) end_date (Suc i))
      else [])"
  by pat_completeness auto
termination
  by (relation "measure (\<lambda>(randint, current_date, end_date, i). nat (end_date + 1 - current_date))")
    auto

text \<open>\<^verbatim>\<open>end_date = datetime.now()\<close>, \<^verbatim>\<open>start_date = end_date - timedelta(days=365)\<close>\<close>

definition sample_data :: "int \<Rightarrow> (nat \<Rightarrow> int) \<Rightarrow> data_point list" where
  "sample_data now randint = sample_loop randint (now - 365) now 0"

text \<open>\<^verbatim>\<open>publication_data\<close> after the three blocks.\<close>

definition real_publication_data ::
  "world \<Rightarrow> timeseries_answers \<Rightarrow> data_point list \<times> event list" where
  "real_publication_data w a =
     (case mysql_timeseries w a of (d1, ev1) \<Rightarrow>
      case mongodb_timeseries w a d1 of (d2, ev2) \<Rightarrow>
      case neo4j_timeseries w a (d1 @ d2) of (d3, ev3) \<Rightarrow>
        (d1 @ d2 @ d3, ev1 @ ev2 @ ev3))"

text \<open>\<^verbatim>\<open>publication_data\<close> when the visualisation starts: the sample data when the blocks
  appended nothing.\<close>

definition publication_data ::
  "world \<Rightarrow> timeseries_answers \<Rightarrow> int \<Rightarrow> (nat \<Rightarrow> int) \<Rightarrow> data_point list \<times> event list" where
  "publication_data w a now randint =
     (case real_publication_data w a of (found, ev) \<Rightarrow>
        (if found = [] then sample_data now randint else found, ev))"

definition get_timeseries_widget_data ::
  "world \<Rightarrow> timeseries_answers \<Rightarrow> int \<Rightarrow> (nat \<Rightarrow> int) \<Rightarrow> (figure \<times> info) \<times> event list" where
  "get_timeseries_widget_data w a now randint =
     (case publication_data w a now randint of (data, ev) \<Rightarrow>
        (case sort_key date data of
           [] \<Rightarrow>
             ((Annotation ''No publication data available'',
               Text ''No publication data found in any database''), ev)
         | p # ps \<Rightarrow>
             ((LineChart (map (\<lambda>q. (date q, count q)) (p # ps)),
               TimeseriesInfo
                 (sum_list (map count (p # ps)))
                 (of_int (sum_list (map count (p # ps))) / of_nat (length (p # ps)))
                 (source p)), ev)))"

section \<open>Notions used in the statements\<close>





text \<open>A driver call that gives no records: it returns an empty list or it raises.\<close>

fun no_records :: "'a list outcome \<Rightarrow> bool" where
  "no_records (Returns rs) = (rs = [])"
| "no_records RaisesError = True"
| "no_records RaisesOther = True"

text \<open>A driver call that fails: it raises.\<close>

fun failed :: "'a outcome \<Rightarrow> bool" where
  "failed (Returns x) = False"
| "failed RaisesError = True"
| "failed RaisesOther = True"

text \<open>A section of the report: nothing when there are no cards, the heading and the cards
  otherwise.\<close>

definition titled :: "string \<Rightarrow> element list \<Rightarrow> element list" where
  "titled heading cards = (if cards = [] then [] else H5 heading # cards)"

fun is_card :: "element \<Rightarrow> bool" where
  "is_card (Div lines) = True"
| "is_card (H5 heading) = False"

text \<open>The elements of a report.\<close>

fun elements :: "report \<Rightarrow> element list" where
  "elements (NotFound name) = []"
| "elements (SearchResults name els) = els"

text \<open>An information line that reports statistics.\<close>

fun is_statistics :: "info \<Rightarrow> bool" where
  "is_statistics (FoundPublications n m v) = True"
| "is_statistics (ShowingPublications n m x) = True"
| "is_statistics _ = False"

section \<open>Example inputs\<close>

text \<open>A world in which the MySQL handle is live and the other two handles are absent.\<close>

definition live_world :: world where
  "live_world =
     \<lparr>mysql_conn = Some \<lparr>connection = Some \<lparr>is_connected = True\<rparr>\<rparr>,
      mongodb_conn = None, neo4j_conn = None,
      mysql_server = Returns \<lparr>is_connected = True\<rparr>,
      mongodb_server = PingRaises Unavailable,
      neo4j_server = ProbeRaises Unavailable\<rparr>"

text \<open>A world in which all three handles are present and connected.\<close>

definition connected_world :: world where
  "connected_world =
     \<lparr>mysql_conn = Some \<lparr>connection = Some \<lparr>is_connected = True\<rparr>\<rparr>,
      mongodb_conn = Some \<lparr>client = Some MongoClient, database_name = Some ''academicworld''\<rparr>,
      neo4j_conn = Some \<lparr>driver = Some GraphDriver\<rparr>,
      mysql_server = Returns \<lparr>is_connected = True\<rparr>,
      mongodb_server = PingOK, neo4j_server = ProbeOK\<rparr>"

text \<open>A person search in which no backend has a record: MySQL and Neo4j return empty
  results, the MongoDB queries fail.\<close>

definition no_match :: person_answers where
  "no_match =
     \<lparr>faculty_rows = Returns [], pub_rows = Returns [],
      faculty_docs = RaisesError, pub_docs = Returns [],
      person_records = Returns [], pub_records = Returns [], collab_records = RaisesOther\<rparr>"

text \<open>A person search in which MySQL returns one faculty row and two publication rows, the
  MongoDB server is unreachable and Neo4j has one person record.\<close>

definition ada_faculty :: faculty_tuple where
  "ada_faculty =
     (PyInt 7, PyStr ''Ada Lovelace'', PyStr ''ada@example.edu'', PyNone, PyStr ''Professor'',
      PyStr ''Analytical engines'', PyNone, PyStr ''Mathematics'', PyStr ''London'')"

definition ada_pub1 :: pub_tuple where
  "ada_pub1 = (PyStr ''Notes on the engine'', PyInt 1843, PyStr ''Scientific Memoirs'', PyInt 150)"

definition ada_pub2 :: pub_tuple where
  "ada_pub2 = (PyStr ''Sketch'', PyNone, PyNone, PyInt 0)"

definition three_records :: person_answers where
  "three_records =
     \<lparr>faculty_rows = Returns [ada_faculty], pub_rows = Returns [ada_pub1, ada_pub2],
      faculty_docs = RaisesOther, pub_docs = RaisesError,
      person_records = Returns [[(''name'', PyStr ''Ada Lovelace'')]],
      pub_records = Returns [], collab_records = Returns []\<rparr>"



text \<open>A world without any handle, a server side that has no dated publication, and a
  random source that always draws 0.\<close>

definition offline_world :: world where
  "offline_world =
     \<lparr>mysql_conn = None, mongodb_conn = None, neo4j_conn = None,
      mysql_server = RaisesError, mongodb_server = PingRaises Unavailable,
      neo4j_server = ProbeRaises Unavailable\<rparr>"

definition no_dates :: timeseries_answers where
  "no_dates = \<lparr>mysql_dates = Returns [], mongodb_dates = Returns [], neo4j_dates = Returns []\<rparr>"

definition no_jitter :: "nat \<Rightarrow> int" where
  "no_jitter i = 0"

text \<open>A server side on which every backend holds one dated publication.\<close>

definition all_dated :: timeseries_answers where
  "all_dated =
     \<lparr>mysql_dates = Returns [(738000, 4)], mongodb_dates = Returns [(738001, 2)],
      neo4j_dates = Returns [[(''date'', 738002), (''count'', 1)]]\<rparr>"

section \<open>Group-count\<close>

lemma set_map_filter: "set (List.map_filter f xs) = {k. \<exists>r\<in>set xs. f r = Some k}"
  by (induction xs) (auto split: option.splits)

lemma count_partition:
  "distinct ks \<Longrightarrow>
   sum_list (map (\<lambda>k. length (filter (\<lambda>r. col r = Some k) df)) ks)
     = length (filter (\<lambda>r. \<exists>k\<in>set ks. col r = Some k) df)"
proof (induction ks)
  case Nil
  then show ?case by simp
next
  case (Cons k ks)
  have "length (filter (\<lambda>r. \<exists>k'\<in>set (k # ks). col r = Some k') df)
        = length (filter (\<lambda>r. col r = Some k) df)
          + length (filter (\<lambda>r. \<exists>k'\<in>set ks. col r = Some k') df)"
    using Cons.prems by (induction df) auto
  with Cons show ?case by simp
qed

lemma groupby_size_sum:
  "sum_list (map snd (groupby_size col df)) = length (filter (\<lambda>r. col r \<noteq> None) df)"
proof -
  let ?ks = "sort (remdups (List.map_filter col df))"
  have d: "distinct ?ks" by simp
  have "sum_list (map snd (groupby_size col df))
        = sum_list (map (\<lambda>k. length (filter (\<lambda>r. col r = Some k) df)) ?ks)"
    by (simp add: groupby_size_def comp_def)
  also have "\<dots> = length (filter (\<lambda>r. \<exists>k\<in>set ?ks. col r = Some k) df)"
    using d by (rule count_partition)
  also have "\<dots> = length (filter (\<lambda>r. col r \<noteq> None) df)"
    by (rule arg_cong [where f = length], rule filter_cong) (auto simp: set_map_filter)
  finally show ?thesis .
qed

lemma groupby_size_keys: "map fst (groupby_size col df) = sort (remdups (List.map_filter col df))"
  by (simp add: groupby_size_def comp_def)

lemma year_counts_groupby: "year_counts df = groupby_size year df"
  unfolding year_counts_def
  by (rule sort_key_id_if_sorted) (simp add: groupby_size_keys)

text \<open>
  Claim C3, as the code has it. The group-count by year is the \<^verbatim>\<open>groupby\<close> of the year
  column, and for every frame and every column the partitions of a \<^verbatim>\<open>groupby\<close> have counts
  that sum to the number of rows whose value in the column is not null (so to the number
  of rows when no value is null), keys that are exactly the distinct values of the column
  that are not null, each once, and they come in ascending order of the key.
\<close>

theorem group_count_partitions:
  "year_counts df = groupby_size year df
   \<and> sum_list (map snd (groupby_size col df)) = length (filter (\<lambda>r. col r \<noteq> None) df)
   \<and> ((\<forall>r \<in> set df. col r \<noteq> None) \<longrightarrow> sum_list (map snd (groupby_size col df)) = length df)
   \<and> set (map fst (groupby_size col df)) = {k. \<exists>r \<in> set df. col r = Some k}
   \<and> distinct (map fst (groupby_size col df))
   \<and> sorted (map fst (groupby_size col df))"
proof -
  have "(\<forall>r \<in> set df. col r \<noteq> None) \<longrightarrow> filter (\<lambda>r. col r \<noteq> None) df = df"
    by (simp add: filter_id_conv)
  then show ?thesis
    by (auto simp: year_counts_groupby groupby_size_sum groupby_size_keys set_map_filter)
qed

theorem group_count_partitions_witness:
  "year_counts [\<lparr>title = None, year = Some 2021, venue = None, citations = None\<rparr>,
                \<lparr>title = None, year = Some 2019, venue = None, citations = None\<rparr>,
                \<lparr>title = None, year = Some 2021, venue = None, citations = None\<rparr>]
     = [(2019, 1), (2021, 2)]
   \<and> sum_list (map snd (groupby_size year
         [\<lparr>title = None, year = Some 2021, venue = None, citations = None\<rparr>,
          \<lparr>title = None, year = Some 2019, venue = None, citations = None\<rparr>,
          \<lparr>title = None, year = Some 2021, venue = None, citations = None\<rparr>])) = 3"
  using group_count_partitions [of
      "[\<lparr>title = None, year = Some 2021, venue = None, citations = None\<rparr>,
        \<lparr>title = None, year = Some 2019, venue = None, citations = None\<rparr>,
        \<lparr>title = None, year = Some 2021, venue = None, citations = None\<rparr>]" year]
  by (simp add: groupby_size_def)

text \<open>
  Claim C3 as stated fails on a record whose year is null: the record is dropped, and the
  counts sum to 0 for a RecordSet of length 1.
\<close>

theorem group_count_null_counterexample:
  "sum_list (map snd (year_counts
      [\<lparr>title = Some ''ML Survey'', year = None, venue = Some ''NeurIPS'', citations = Some 150\<rparr>]))
   \<noteq> length [\<lparr>title = Some ''ML Survey'', year = None, venue = Some ''NeurIPS'', citations = Some 150\<rparr>]"
  by (simp add: year_counts_def groupby_size_def)

section \<open>Top-N\<close>

































section \<open>Keyword explosion\<close>

text \<open>
  Claim C5, as the code has it. Over the two records with the tag fields
  \<^verbatim>\<open>"AI, Machine Learning"\<close> and \<^verbatim>\<open>"ai,NLP"\<close>, one occurrence each, the keyword explosion
  gives the mapping in which \<^verbatim>\<open>machine learning\<close> and \<^verbatim>\<open>nlp\<close> have count 1 each and which
  has no entry for \<^verbatim>\<open>ai\<close>: a token of two characters is filtered out.
\<close>

theorem keyword_explosion_example:
  "keyword_counts [(Some ''AI, Machine Learning'', 1), (Some ''ai,NLP'', 1)]
     = [(''machine learning'', 1), (''nlp'', 1)]"
  by code_simp

text \<open>Claim C5 as stated fails: the mapping does not give \<^verbatim>\<open>ai\<close> the count 2.\<close>

theorem keyword_explosion_counterexample:
  "map_of (keyword_counts [(Some ''AI, Machine Learning'', 1), (Some ''ai,NLP'', 1)]) ''ai''
     \<noteq> Some 2"
  by code_simp


section \<open>Reconnecting and retrying\<close>

lemma mysql_execute_query_stale:
  "mysql_stale self \<Longrightarrow>
   mysql_execute_query drv answer self
     = (case drv of
          RaisesError \<Rightarrow>
            (Inr None, self, [Connect MySQL, Log ERROR ''Error connecting to MySQL database''])
        | RaisesOther \<Rightarrow> (Inl DriverFault, self, [Connect MySQL])
        | Returns c \<Rightarrow>
            if \<not> is_connected c then (Inr None, self\<lparr>connection := Some c\<rparr>, [Connect MySQL])
            else (case answer of
                    Returns rows \<Rightarrow>
                      (Inr (Some rows), self\<lparr>connection := Some c\<rparr>,
                       [Connect MySQL, Log INFO ''Successfully connected to MySQL database'',
                        Query MySQL])
                  | RaisesError \<Rightarrow>
                      (Inr None, self\<lparr>connection := Some c\<rparr>,
                       [Connect MySQL, Log INFO ''Successfully connected to MySQL database'',
                        Query MySQL, Log ERROR ''Error executing query''])
                  | RaisesOther \<Rightarrow>
                      (Inl DriverFault, self\<lparr>connection := Some c\<rparr>,
                       [Connect MySQL, Log INFO ''Successfully connected to MySQL database'',
                        Query MySQL])))"
  by (cases drv; cases answer)
     (simp_all add: mysql_execute_query_def mysql_connect_def mysql_run_query_def)

lemma mysql_execute_query_live:
  "\<not> mysql_stale self \<Longrightarrow>
   mysql_execute_query drv answer self
     = (case answer of
          Returns rows \<Rightarrow> (Inr (Some rows), self, [Query MySQL])
        | RaisesError \<Rightarrow> (Inr None, self, [Query MySQL, Log ERROR ''Error executing query''])
        | RaisesOther \<Rightarrow> (Inl DriverFault, self, [Query MySQL]))"
  by (cases answer) (simp_all add: mysql_execute_query_def mysql_run_query_def)

lemma neo4j_execute_query_absent:
  "driver conn = None \<Longrightarrow>
   neo4j_execute_query ndrv nanswer conn
     = (case ndrv of
          DriverRaises f \<Rightarrow> (None, conn, [Connect Neo4j, neo4j_connect_error f])
        | ProbeRaises f \<Rightarrow>
            (None, conn\<lparr>driver := Some GraphDriver\<rparr>, [Connect Neo4j, neo4j_connect_error f])
        | ProbeOK \<Rightarrow>
            (case nanswer of
               Returns records \<Rightarrow>
                 (Some records, conn\<lparr>driver := Some GraphDriver\<rparr>,
                  [Connect Neo4j, Log INFO ''Successfully connected to Neo4j'', Query Neo4j,
                   Log INFO ''Query executed successfully''])
             | RaisesError \<Rightarrow>
                 (None, conn\<lparr>driver := Some GraphDriver\<rparr>,
                  [Connect Neo4j, Log INFO ''Successfully connected to Neo4j'', Query Neo4j,
                   Log ERROR ''Error executing query''])
             | RaisesOther \<Rightarrow>
                 (None, conn\<lparr>driver := Some GraphDriver\<rparr>,
                  [Connect Neo4j, Log INFO ''Successfully connected to Neo4j'', Query Neo4j,
                   Log ERROR ''Error executing query''])))"
  by (cases ndrv; cases nanswer)
     (simp_all add: neo4j_execute_query_def neo4j_connect_def neo4j_run_query_def)

lemma neo4j_execute_query_present:
  "driver conn \<noteq> None \<Longrightarrow>
   neo4j_execute_query ndrv nanswer conn
     = (case nanswer of
          Returns records \<Rightarrow>
            (Some records, conn, [Query Neo4j, Log INFO ''Query executed successfully''])
        | RaisesError \<Rightarrow> (None, conn, [Query Neo4j, Log ERROR ''Error executing query''])
        | RaisesOther \<Rightarrow> (None, conn, [Query Neo4j, Log ERROR ''Error executing query'']))"
  by (cases nanswer) (auto simp: neo4j_execute_query_def neo4j_run_query_def)

lemma neo4j_connect_error_event:
  "neo4j_connect_error f \<noteq> Connect Neo4j" "neo4j_connect_error f \<noteq> Query Neo4j"
  by (cases f; simp add: neo4j_connect_error_def)+

text \<open>
  Claim C6, as the code has it, for every read query on the two adapters of the claim.

  The MySQL adapter with a stale handle (no connection object, or one that is not
  connected) makes exactly one attempt to connect, and none with a live handle. When the
  attempt raises a driver error or gives a connection that is not connected, the query is
  not sent and the result is \<^verbatim>\<open>None\<close>; when it raises any other exception, the exception
  escapes. With a live handle, or after a reconnect that gave a live connection, the query
  is sent exactly once and never again: its rows are returned; a driver error is logged
  and the result is \<^verbatim>\<open>None\<close>; any other exception escapes, without a log line.

  The Neo4j adapter makes exactly one attempt to connect when its driver is absent, and
  none when it is present, whether its server still answers or not. When the attempt
  fails, the query is not sent and the result is \<^verbatim>\<open>None\<close>. Otherwise the query is sent
  exactly once and never again: its records are returned, or any exception is logged as
  an error and the result is \<^verbatim>\<open>None\<close>.
\<close>

theorem adapter_reconnect:
  "count_list (snd (snd (mysql_execute_query drv answer self))) (Connect MySQL)
     = (if mysql_stale self then 1 else 0)
   \<and> count_list (snd (snd (mysql_execute_query drv answer self))) (Query MySQL)
     = (if \<not> mysql_stale self \<or> (\<exists>c. drv = Returns c \<and> is_connected c) then 1 else 0)
   \<and> (mysql_stale self \<longrightarrow>
        mysql_execute_query drv answer self
          = (case drv of
               RaisesError \<Rightarrow>
                 (Inr None, self,
                  [Connect MySQL, Log ERROR ''Error connecting to MySQL database''])
             | RaisesOther \<Rightarrow> (Inl DriverFault, self, [Connect MySQL])
             | Returns c \<Rightarrow>
                 if \<not> is_connected c
                 then (Inr None, self\<lparr>connection := Some c\<rparr>, [Connect MySQL])
                 else (case answer of
                         Returns rows \<Rightarrow>
                           (Inr (Some rows), self\<lparr>connection := Some c\<rparr>,
                            [Connect MySQL,
                             Log INFO ''Successfully connected to MySQL database'',
                             Query MySQL])
                       | RaisesError \<Rightarrow>
                           (Inr None, self\<lparr>connection := Some c\<rparr>,
                            [Connect MySQL,
                             Log INFO ''Successfully connected to MySQL database'',
                             Query MySQL, Log ERROR ''Error executing query''])
                       | RaisesOther \<Rightarrow>
                           (Inl DriverFault, self\<lparr>connection := Some c\<rparr>,
                            [Connect MySQL,
                             Log INFO ''Successfully connected to MySQL database'',
                             Query MySQL]))))
   \<and> (\<not> mysql_stale self \<longrightarrow>
        mysql_execute_query drv answer self
          = (case answer of
               Returns rows \<Rightarrow> (Inr (Some rows), self, [Query MySQL])
             | RaisesError \<Rightarrow>
                 (Inr None, self, [Query MySQL, Log ERROR ''Error executing query''])
             | RaisesOther \<Rightarrow> (Inl DriverFault, self, [Query MySQL])))
   \<and> count_list (snd (snd (neo4j_execute_query ndrv nanswer conn))) (Connect Neo4j)
     = (if driver conn = None then 1 else 0)
   \<and> count_list (snd (snd (neo4j_execute_query ndrv nanswer conn))) (Query Neo4j)
     = (if driver conn \<noteq> None \<or> ndrv = ProbeOK then 1 else 0)
   \<and> (driver conn = None \<longrightarrow>
        neo4j_execute_query ndrv nanswer conn
          = (case ndrv of
               DriverRaises f \<Rightarrow> (None, conn, [Connect Neo4j, neo4j_connect_error f])
             | ProbeRaises f \<Rightarrow>
                 (None, conn\<lparr>driver := Some GraphDriver\<rparr>,
                  [Connect Neo4j, neo4j_connect_error f])
             | ProbeOK \<Rightarrow>
                 (case nanswer of
                    Returns records \<Rightarrow>
                      (Some records, conn\<lparr>driver := Some GraphDriver\<rparr>,
                       [Connect Neo4j, Log INFO ''Successfully connected to Neo4j'',
                        Query Neo4j, Log INFO ''Query executed successfully''])
                  | RaisesError \<Rightarrow>
                      (None, conn\<lparr>driver := Some GraphDriver\<rparr>,
                       [Connect Neo4j, Log INFO ''Successfully connected to Neo4j'',
                        Query Neo4j, Log ERROR ''Error executing query''])
                  | RaisesOther \<Rightarrow>
                      (None, conn\<lparr>driver := Some GraphDriver\<rparr>,
                       [Connect Neo4j, Log INFO ''Successfully connected to Neo4j'',
                        Query Neo4j, Log ERROR ''Error executing query'']))))
   \<and> (driver conn \<noteq> None \<longrightarrow>
        neo4j_execute_query ndrv nanswer conn
          = (case nanswer of
               Returns records \<Rightarrow>
                 (Some records, conn, [Query Neo4j, Log INFO ''Query executed successfully''])
             | RaisesError \<Rightarrow> (None, conn, [Query Neo4j, Log ERROR ''Error executing query''])
             | RaisesOther \<Rightarrow> (None, conn, [Query Neo4j, Log ERROR ''Error executing query''])))"
proof -
  have m1: "count_list (snd (snd (mysql_execute_query drv answer self))) (Connect MySQL)
              = (if mysql_stale self then 1 else 0)"
    by (cases "mysql_stale self"; cases drv; cases answer)
       (simp_all add: mysql_execute_query_stale mysql_execute_query_live)
  have m2: "count_list (snd (snd (mysql_execute_query drv answer self))) (Query MySQL)
              = (if \<not> mysql_stale self \<or> (\<exists>c. drv = Returns c \<and> is_connected c) then 1 else 0)"
    by (cases "mysql_stale self"; cases drv; cases answer)
       (simp_all add: mysql_execute_query_stale mysql_execute_query_live)
  have n1: "count_list (snd (snd (neo4j_execute_query ndrv nanswer conn))) (Connect Neo4j)
              = (if driver conn = None then 1 else 0)"
    by (cases "driver conn = None"; cases ndrv; cases nanswer)
       (simp_all add: neo4j_execute_query_absent neo4j_execute_query_present
          neo4j_connect_error_event)
  have n2: "count_list (snd (snd (neo4j_execute_query ndrv nanswer conn))) (Query Neo4j)
              = (if driver conn \<noteq> None \<or> ndrv = ProbeOK then 1 else 0)"
    by (cases "driver conn = None"; cases ndrv; cases nanswer)
       (simp_all add: neo4j_execute_query_absent neo4j_execute_query_present
          neo4j_connect_error_event)
  show ?thesis
    by (intro conjI impI m1 m2 n1 n2 mysql_execute_query_stale mysql_execute_query_live
        neo4j_execute_query_absent neo4j_execute_query_present)
qed

theorem adapter_reconnect_witness:
  "mysql_stale \<lparr>connection = Some \<lparr>is_connected = False\<rparr>\<rparr>
   \<and> mysql_execute_query (Returns \<lparr>is_connected = True\<rparr>) (RaisesError :: int list outcome)
         \<lparr>connection = Some \<lparr>is_connected = False\<rparr>\<rparr>
       = (Inr None, \<lparr>connection = Some \<lparr>is_connected = True\<rparr>\<rparr>,
          [Connect MySQL, Log INFO ''Successfully connected to MySQL database'', Query MySQL,
           Log ERROR ''Error executing query''])
   \<and> \<not> mysql_stale \<lparr>connection = Some \<lparr>is_connected = True\<rparr>\<rparr>
   \<and> mysql_execute_query RaisesError (Returns [1::int, 2])
         \<lparr>connection = Some \<lparr>is_connected = True\<rparr>\<rparr>
       = (Inr (Some [1, 2]), \<lparr>connection = Some \<lparr>is_connected = True\<rparr>\<rparr>, [Query MySQL])
   \<and> driver \<lparr>driver = None\<rparr> = None
   \<and> neo4j_execute_query (ProbeRaises Unavailable) (Returns [1::int]) \<lparr>driver = None\<rparr>
       = (None, \<lparr>driver = Some GraphDriver\<rparr>,
          [Connect Neo4j, Log ERROR ''Error connecting to Neo4j''])
   \<and> driver \<lparr>driver = Some GraphDriver\<rparr> \<noteq> None
   \<and> neo4j_execute_query ProbeOK (RaisesOther :: int list outcome) \<lparr>driver = Some GraphDriver\<rparr>
       = (None, \<lparr>driver = Some GraphDriver\<rparr>, [Query Neo4j, Log ERROR ''Error executing query''])"
  using adapter_reconnect [of "Returns \<lparr>is_connected = True\<rparr>" "RaisesError :: int list outcome"
      "\<lparr>connection = Some \<lparr>is_connected = False\<rparr>\<rparr>" "ProbeRaises Unavailable"
      "Returns [1::int]" "\<lparr>driver = None\<rparr>"]
    adapter_reconnect [of RaisesError "Returns [1::int, 2]"
      "\<lparr>connection = Some \<lparr>is_connected = True\<rparr>\<rparr>" ProbeOK
      "RaisesOther :: int list outcome" "\<lparr>driver = Some GraphDriver\<rparr>"]
  by (simp add: mysql_stale_def neo4j_connect_error_def)

text \<open>
  Claim C6 as stated fails: when the query of a live MySQL handle fails, the query has been
  sent once, not twice, and no connection attempt was made; the same holds for a Neo4j
  handle whose driver is present.
\<close>

theorem no_retry_counterexample:
  "count_list (snd (snd (mysql_execute_query (Returns \<lparr>is_connected = True\<rparr>)
       (RaisesError :: int list outcome) \<lparr>connection = Some \<lparr>is_connected = True\<rparr>\<rparr>)))
     (Query MySQL) = 1
   \<and> count_list (snd (snd (mysql_execute_query (Returns \<lparr>is_connected = True\<rparr>)
       (RaisesError :: int list outcome) \<lparr>connection = Some \<lparr>is_connected = True\<rparr>\<rparr>)))
     (Connect MySQL) = 0
   \<and> count_list (snd (snd (neo4j_execute_query ProbeOK
       (RaisesError :: int list outcome) \<lparr>driver = Some GraphDriver\<rparr>)))
     (Connect Neo4j) = 0"
  by (simp add: mysql_stale_def mysql_execute_query_def mysql_run_query_def
        neo4j_execute_query_def neo4j_run_query_def)

section \<open>Validation of the keyword comparison\<close>

text \<open>
  Claim C7. A keyword comparison whose list of trimmed, non-empty terms has fewer than two
  elements performs no backend call at all (no connection attempt, no query), and once the
  button has been clicked it returns the validation message
  \<^verbatim>\<open>Please enter at least 2 keywords to compare\<close>.
\<close>

theorem comparison_validation:
  "length (entered_keywords [keyword1, keyword2, keyword3, keyword4, keyword5]) < 2 \<Longrightarrow>
     snd (compare_keywords w answer n_clicks keyword1 keyword2 keyword3 keyword4 keyword5) = []
     \<and> (n_clicks \<noteq> None \<and> n_clicks \<noteq> Some 0 \<longrightarrow>
          fst (compare_keywords w answer n_clicks keyword1 keyword2 keyword3 keyword4 keyword5)
            = (Annotation ''Please enter at least 2 keywords to compare'',
               Text ''Please enter at least 2 keywords to compare''))"
  by (simp add: compare_keywords_def Let_def)


theorem comparison_validation_witness:
  "length (entered_keywords [Some ''AI'', Some ''   '', None, Some [], None]) < 2
   \<and> compare_keywords live_world (\<lambda>kw. Returns []) (Some 1)
        (Some ''AI'') (Some ''   '') None (Some []) None
       = ((Annotation ''Please enter at least 2 keywords to compare'',
           Text ''Please enter at least 2 keywords to compare''), [])"
proof -
  have e: "entered_keywords [Some ''AI'', Some ''   '', None, Some [], None] = [''AI'']"
    by code_simp
  show ?thesis
    using comparison_validation [of "Some ''AI''" "Some ''   ''" None "Some []" None
        live_world "\<lambda>kw. Returns []" "Some 1"]
    by (simp add: e prod_eq_iff)
qed

text \<open>With two terms the comparison does query the backend, once per term.\<close>

lemma comparison_queries_backend:
  "snd (compare_keywords live_world (\<lambda>kw. Returns []) (Some 1)
          (Some '' AI '') (Some ''  ML'') None (Some []) None)
     = [Query MySQL, Query MySQL]"
proof -
  have e: "entered_keywords [Some '' AI '', Some ''  ML'', None, Some [], None] = [''AI'', ''ML'']"
    by code_simp
  show ?thesis
    by (simp add: compare_keywords_def e get_keyword_comparison_def mysql_available_def
        live_world_def mysql_execute_query_def mysql_stale_def mysql_run_query_def)
qed

section \<open>Scalar statistics on an empty RecordSet\<close>

lemma execute_query_no_records:
  "no_records answer \<Longrightarrow> mysql_execute_query drv answer conn = (Inr (Some (r # rs)), c', ev) \<Longrightarrow> False"
  by (cases answer; cases drv)
     (auto simp: mysql_execute_query_def mysql_connect_def mysql_run_query_def
        split: if_splits)

text \<open>
  Claim C8, as the code has it. On an empty RecordSet the statistics expressions raise
  nothing and give the count 0, the mean NaN, the maximum NaN and the mode \<^verbatim>\<open>N/A\<close>. The two
  operations never evaluate them there: when the query gives no records they return no
  statistics, and on a live handle whose query returns no rows they return their
  \<^verbatim>\<open>No publications found\<close> message.
\<close>

theorem statistics_on_empty:
  "keyword_statistics ([] :: 'a pub_row_scheme list) = Inr (FoundPublications 0 None ''N/A'')
   \<and> all_statistics ([] :: 'a pub_row_scheme list) = ShowingPublications 0 None None
   \<and> (no_records (answer :: 'a pub_row_scheme list outcome) \<longrightarrow>
        \<not> is_statistics (snd (fst (get_publications_by_keyword w answer kw)))
        \<and> \<not> is_statistics (snd (fst (get_all_publications w answer))))
   \<and> (mysql_available w = Some conn \<and> \<not> mysql_stale conn \<longrightarrow>
        get_publications_by_keyword w (Returns ([] :: 'a pub_row_scheme list)) kw
          = ((Annotation (''No publications found containing '' @ quoted kw),
              Text (''No publications found for keyword: '' @ kw)), [Query MySQL])
        \<and> get_all_publications w (Returns ([] :: 'a pub_row_scheme list)) 
          = ((Annotation ''No publications found in database'',
              Text ''No publications found in database''), [Query MySQL]))"
proof -
  have a: "keyword_statistics ([] :: 'a pub_row_scheme list) = Inr (FoundPublications 0 None ''N/A'')"
    by (simp add: keyword_statistics_def top_venue_def series_mean_def)
  have b: "all_statistics ([] :: 'a pub_row_scheme list) = ShowingPublications 0 None None"
    by (simp add: all_statistics_def series_mean_def series_max_def)
  have c: "\<not> is_statistics (snd (fst (get_publications_by_keyword w answer kw)))"
    if "no_records answer"
    using execute_query_no_records [OF that]
    by (auto simp: get_publications_by_keyword_def split: option.splits prod.splits sum.splits list.splits)
  have d: "\<not> is_statistics (snd (fst (get_all_publications w answer)))"
    if "no_records answer"
    using execute_query_no_records [OF that]
    by (auto simp: get_all_publications_def split: option.splits prod.splits sum.splits list.splits)
  have e: "get_publications_by_keyword w (Returns ([] :: 'a pub_row_scheme list)) kw
          = ((Annotation (''No publications found containing '' @ quoted kw),
              Text (''No publications found for keyword: '' @ kw)), [Query MySQL])
        \<and> get_all_publications w (Returns ([] :: 'a pub_row_scheme list)) 
          = ((Annotation ''No publications found in database'',
              Text ''No publications found in database''), [Query MySQL])"
    if "mysql_available w = Some conn" "\<not> mysql_stale conn"
    using that
    by (simp add: get_publications_by_keyword_def get_all_publications_def
        mysql_execute_query_def mysql_run_query_def)
  from a b c d e show ?thesis by blast
qed

theorem statistics_on_empty_witness:
  "no_records (Returns ([] :: pub_row list))
   \<and> mysql_available live_world = Some \<lparr>connection = Some \<lparr>is_connected = True\<rparr>\<rparr>
   \<and> \<not> mysql_stale \<lparr>connection = Some \<lparr>is_connected = True\<rparr>\<rparr>
   \<and> \<not> is_statistics (snd (fst (get_all_publications live_world (Returns ([] :: pub_row list)))))
   \<and> get_publications_by_keyword live_world (Returns ([] :: pub_row list)) ''graph''
       = ((Annotation (''No publications found containing '' @ [CHR 0x27] @ ''graph'' @ [CHR 0x27]),
           Text ''No publications found for keyword: graph''), [Query MySQL])"
  using statistics_on_empty [of "Returns ([] :: pub_row list)" live_world "''graph''"
      "\<lparr>connection = Some \<lparr>is_connected = True\<rparr>\<rparr>"]
  by (simp add: mysql_available_def live_world_def mysql_stale_def quoted_def)

text \<open>
  Claim C8 as stated fails: on the empty RecordSet the mean is NaN, not 0, and the operation
  returns a message without statistics.
\<close>

theorem statistics_on_empty_counterexample:
  "keyword_statistics ([] :: pub_row list) \<noteq> Inr (FoundPublications 0 (Some 0) ''N/A'')
   \<and> snd (fst (get_publications_by_keyword live_world (Returns ([] :: pub_row list)) ''graph''))
       = Text ''No publications found for keyword: graph''"
  by (simp add: keyword_statistics_def top_venue_def series_mean_def
      get_publications_by_keyword_def mysql_available_def live_world_def
      mysql_execute_query_def mysql_stale_def mysql_run_query_def)


section \<open>The person search\<close>

lemma getitem_position: "getitem (as_dict r) (IntKey i) = Inl KeyError"
proof -
  have "map_of (as_dict r) (IntKey i) = None"
    by (induction r) (auto simp: as_dict_def)
  then show ?thesis by (simp add: getitem_def)
qed

lemma neo4j_cards_raise:
  "neo4j_person_card r = Inl KeyError"
  "neo4j_pub_card r = Inl KeyError"
  "neo4j_collab_card r = Inl KeyError"
  by (simp_all add: neo4j_person_card_def neo4j_pub_card_def neo4j_collab_card_def
      getitem_position try_bind_def)

lemma add_section_raising:
  "(\<And>d. mk d = Inl e) \<Longrightarrow>
   add_section heading mk results
     = (case results of Some (d # ds) \<Rightarrow> ([H5 heading], Some e) | _ \<Rightarrow> ([], None))"
  by (simp add: add_section_def split: option.splits list.splits)

lemma append_each_total: "append_each (\<lambda>x. Inr (f x)) xs = (map f xs, None)"
  by (induction xs) auto

lemma add_section_total:
  "add_section heading (\<lambda>x. Inr (f x)) (Some xs) = (titled heading (map f xs), None)"
  by (cases xs) (simp_all add: add_section_def titled_def append_each_total)

lemma add_section_nothing:
  "add_section heading mk None = ([], None)"
  "add_section heading mk (Some []) = ([], None)"
  by (simp_all add: add_section_def)

lemma neo4j_person_search_headings:
  "set (fst (neo4j_person_search w a))
     \<subseteq> {H5 ''Neo4j - Person Information'', H5 ''Neo4j - Publications'',
        H5 ''Neo4j - Top Collaborators''}"
  by (auto simp: neo4j_person_search_def add_section_raising neo4j_cards_raise
      split: option.splits prod.splits list.splits)

lemma mysql_no_records:
  "no_records answer \<Longrightarrow>
   fst (mysql_execute_query drv answer conn) \<in> {Inl DriverFault, Inr None, Inr (Some [])}"
  by (cases answer; cases drv)
     (auto simp: mysql_execute_query_def mysql_connect_def mysql_run_query_def)

lemma mysql_person_search_nothing:
  assumes "mysql_available w = None \<or> (no_records (faculty_rows a) \<and> no_records (pub_rows a))"
  shows "fst (mysql_person_search w a) = []"
proof (cases "mysql_available w")
  case None
  then show ?thesis by (simp add: mysql_person_search_def)
next
  case (Some conn)
  with assms have n: "no_records (faculty_rows a)" "no_records (pub_rows a)" by auto
  obtain r1 c1 e1 where q1:
    "mysql_execute_query (mysql_server w) (faculty_rows a) conn = (r1, c1, e1)"
    by (metis prod_cases3)
  obtain r2 c2 e2 where q2:
    "mysql_execute_query (mysql_server w) (pub_rows a) c1 = (r2, c2, e2)"
    by (metis prod_cases3)
  have r1: "r1 \<in> {Inl DriverFault, Inr None, Inr (Some [])}"
    using mysql_no_records [OF n(1), of "mysql_server w" conn] by (simp add: q1)
  have r2: "r2 \<in> {Inl DriverFault, Inr None, Inr (Some [])}"
    using mysql_no_records [OF n(2), of "mysql_server w" c1] by (simp add: q2)
  show ?thesis
    using r1 r2 by (auto simp: mysql_person_search_def Some q1 q2 add_section_nothing)
qed

lemma find_no_records:
  "no_records answer \<Longrightarrow>
   fst (find_documents drv answer conn) \<in> {Inl DriverFault, Inr None, Inr (Some [])}"
  by (cases answer; cases drv)
     (auto simp: find_documents_def mongodb_connect_def)

lemma mongodb_person_search_nothing:
  assumes "mongodb_available w = None \<or> (no_records (faculty_docs a) \<and> no_records (pub_docs a))"
  shows "fst (mongodb_person_search w a) = []"
proof (cases "mongodb_available w")
  case None
  then show ?thesis by (simp add: mongodb_person_search_def)
next
  case (Some conn)
  with assms have n: "no_records (faculty_docs a)" "no_records (pub_docs a)" by auto
  obtain r1 c1 e1 where q1:
    "find_documents (mongodb_server w) (faculty_docs a) conn = (r1, c1, e1)"
    by (metis prod_cases3)
  obtain r2 c2 e2 where q2:
    "find_documents (mongodb_server w) (pub_docs a) c1 = (r2, c2, e2)"
    by (metis prod_cases3)
  have r1: "r1 \<in> {Inl DriverFault, Inr None, Inr (Some [])}"
    using find_no_records [OF n(1), of "mongodb_server w" conn] by (simp add: q1)
  have r2: "r2 \<in> {Inl DriverFault, Inr None, Inr (Some [])}"
    using find_no_records [OF n(2), of "mongodb_server w" c1] by (simp add: q2)
  show ?thesis
    using r1 r2 by (auto simp: mongodb_person_search_def Some q1 q2 add_section_nothing)
qed

lemma neo4j_no_records:
  "no_records answer \<Longrightarrow>
   fst (neo4j_execute_query drv answer conn) \<in> {None, Some []}"
  by (cases answer; cases drv)
     (auto simp: neo4j_execute_query_def neo4j_connect_def neo4j_run_query_def)

lemma neo4j_person_search_nothing:
  assumes "neo4j_available w = None
           \<or> (no_records (person_records a) \<and> no_records (pub_records a)
               \<and> no_records (collab_records a))"
  shows "fst (neo4j_person_search w a) = []"
proof (cases "neo4j_available w")
  case None
  then show ?thesis by (simp add: neo4j_person_search_def)
next
  case (Some conn)
  with assms have n: "no_records (person_records a)" "no_records (pub_records a)"
    "no_records (collab_records a)" by auto
  obtain r1 c1 e1 where q1:
    "neo4j_execute_query (neo4j_server w) (person_records a) conn = (r1, c1, e1)"
    by (metis prod_cases3)
  obtain r2 c2 e2 where q2:
    "neo4j_execute_query (neo4j_server w) (pub_records a) c1 = (r2, c2, e2)"
    by (metis prod_cases3)
  obtain r3 c3 e3 where q3:
    "neo4j_execute_query (neo4j_server w) (collab_records a) c2 = (r3, c3, e3)"
    by (metis prod_cases3)
  have r1: "r1 \<in> {None, Some []}"
    using neo4j_no_records [OF n(1), of "neo4j_server w" conn] by (simp add: q1)
  have r2: "r2 \<in> {None, Some []}"
    using neo4j_no_records [OF n(2), of "neo4j_server w" c1] by (simp add: q2)
  have r3: "r3 \<in> {None, Some []}"
    using neo4j_no_records [OF n(3), of "neo4j_server w" c2] by (simp add: q3)
  show ?thesis
    using r1 r2 r3 by (auto simp: neo4j_person_search_def Some q1 q2 q3 add_section_nothing)
qed

text \<open>
  Claim C2. When each of the three backends is skipped (its handle is absent or not
  connected) or gives no records to any of its queries (an empty result, or a failure), the
  person search returns the \<^verbatim>\<open>No information found\<close> report for the name. The function is
  total: every exception of a block is caught in the block.
\<close>

theorem person_not_found:
  assumes "mysql_available w = None \<or> (no_records (faculty_rows a) \<and> no_records (pub_rows a))"
    and "mongodb_available w = None \<or> (no_records (faculty_docs a) \<and> no_records (pub_docs a))"
    and "neo4j_available w = None
         \<or> (no_records (person_records a) \<and> no_records (pub_records a)
             \<and> no_records (collab_records a))"
  shows "fst (get_person_information w a person_name) = NotFound person_name"
  using mysql_person_search_nothing [OF assms(1)] mongodb_person_search_nothing [OF assms(2)]
    neo4j_person_search_nothing [OF assms(3)]
  by (simp add: get_person_information_def case_prod_beta)


theorem person_not_found_witness:
  "(mysql_available connected_world = None
      \<or> (no_records (faculty_rows no_match) \<and> no_records (pub_rows no_match)))
   \<and> (mongodb_available connected_world = None
      \<or> (no_records (faculty_docs no_match) \<and> no_records (pub_docs no_match)))
   \<and> (neo4j_available connected_world = None
      \<or> (no_records (person_records no_match) \<and> no_records (pub_records no_match)
          \<and> no_records (collab_records no_match)))
   \<and> fst (get_person_information connected_world no_match ''Ada'') = NotFound ''Ada''"
proof -
  have h1: "mysql_available connected_world = None
      \<or> (no_records (faculty_rows no_match) \<and> no_records (pub_rows no_match))"
    by (simp add: no_match_def)
  have h2: "mongodb_available connected_world = None
      \<or> (no_records (faculty_docs no_match) \<and> no_records (pub_docs no_match))"
    by (simp add: no_match_def)
  have h3: "neo4j_available connected_world = None
      \<or> (no_records (person_records no_match) \<and> no_records (pub_records no_match)
          \<and> no_records (collab_records no_match))"
    by (simp add: no_match_def)
  from h1 h2 h3 person_not_found [OF h1 h2 h3, of "''Ada''"] show ?thesis by blast
qed

lemma failed_no_records: "failed answer \<Longrightarrow> no_records answer"
  by (cases answer) simp_all

lemma mysql_query_returns:
  assumes "\<not> mysql_stale conn \<or> (\<exists>c. drv = Returns c \<and> is_connected c)"
  shows "\<exists>conn' ev. mysql_execute_query drv (Returns rs) conn = (Inr (Some rs), conn', ev)
           \<and> \<not> mysql_stale conn'"
  using assms
  by (auto simp: mysql_execute_query_def mysql_connect_def mysql_run_query_def mysql_stale_def)

lemma mysql_person_search_rows:
  assumes "mysql_available w = Some conn"
    and "\<not> mysql_stale conn \<or> (\<exists>c. mysql_server w = Returns c \<and> is_connected c)"
    and "faculty_rows a = Returns fs" and "pub_rows a = Returns ps"
  shows "fst (mysql_person_search w a)
         = titled ''MySQL - Faculty Information'' (map mysql_faculty_card fs)
           @ titled ''MySQL - Publications'' (map mysql_pub_card ps)"
proof -
  obtain c1 e1 where q1:
    "mysql_execute_query (mysql_server w) (Returns fs) conn = (Inr (Some fs), c1, e1)"
    and s1: "\<not> mysql_stale c1"
    using mysql_query_returns [OF assms(2)] by blast
  obtain c2 e2 where q2:
    "mysql_execute_query (mysql_server w) (Returns ps) c1 = (Inr (Some ps), c2, e2)"
    using mysql_query_returns [of c1 "mysql_server w" ps] s1 by blast
  show ?thesis
    by (simp add: mysql_person_search_def assms(1,3,4) q1 q2 add_section_total)
qed

lemma mysql_cards:
  "is_card (mysql_faculty_card f)" "is_card (mysql_pub_card p)"
  "mysql_faculty_card f \<noteq> H5 h" "mysql_pub_card p \<noteq> H5 h"
  by (cases f rule: mysql_faculty_card.cases; cases p rule: mysql_pub_card.cases; simp)+

lemma mysql_card_lines:
  "mysql_faculty_card
     = (\<lambda>(f0, f1, f2, f3, f4, f5, f6, f7, f8).
          Div [(''Name'', f1),
               (''Email'', or_default f2 (PyStr ''N/A'')),
               (''Position'', or_default f4 (PyStr ''N/A'')),
               (''Department'', or_default f7 (PyStr ''N/A'')),
               (''University'', or_default f8 (PyStr ''N/A'')),
               (''Research'', or_default f5 (PyStr ''N/A'')),
               (''Interests'', or_default f6 (PyStr ''N/A''))])"
  "mysql_pub_card
     = (\<lambda>(p0, p1, p2, p3).
          Div [(''Title'', p0),
               (''Year'', or_default p1 (PyStr ''N/A'')),
               (''Venue'', or_default p2 (PyStr ''N/A'')),
               (''Citations'', or_default p3 (PyInt 0))])"
  by (auto simp: fun_eq_iff)

lemma person_search_sections:
  assumes "mongodb_available w = None \<or> (failed (faculty_docs a) \<and> failed (pub_docs a))"
    and "mysql_available w = Some conn"
    and "\<not> mysql_stale conn \<or> (\<exists>c. mysql_server w = Returns c \<and> is_connected c)"
    and "faculty_rows a = Returns fs" and "pub_rows a = Returns ps"
    and "length fs + length ps = 3"
  shows "(\<exists>rest. fst (get_person_information w a person_name)
            = SearchResults person_name
                (titled ''MySQL - Faculty Information'' (map mysql_faculty_card fs)
                 @ titled ''MySQL - Publications'' (map mysql_pub_card ps) @ rest)
          \<and> set rest \<subseteq> {H5 ''Neo4j - Person Information'', H5 ''Neo4j - Publications'',
                         H5 ''Neo4j - Top Collaborators''})
       \<and> filter is_card (elements (fst (get_person_information w a person_name)))
           = map mysql_faculty_card fs @ map mysql_pub_card ps
       \<and> H5 ''MongoDB - Faculty Information''
           \<notin> set (elements (fst (get_person_information w a person_name)))
       \<and> H5 ''MongoDB - Publications''
           \<notin> set (elements (fst (get_person_information w a person_name)))"
proof -
  let ?m = "titled ''MySQL - Faculty Information'' (map mysql_faculty_card fs)
            @ titled ''MySQL - Publications'' (map mysql_pub_card ps)"
  let ?rest = "fst (neo4j_person_search w a)"
  have m: "fst (mysql_person_search w a) = ?m"
    using assms(2-5) by (rule mysql_person_search_rows)
  have d: "fst (mongodb_person_search w a) = []"
    using assms(1) by (intro mongodb_person_search_nothing) (auto dest: failed_no_records)
  have g: "set ?rest \<subseteq> {H5 ''Neo4j - Person Information'', H5 ''Neo4j - Publications'',
                         H5 ''Neo4j - Top Collaborators''}"
    by (rule neo4j_person_search_headings)
  have ne: "?m \<noteq> []"
    using assms(6) by (cases fs; cases ps) (simp_all add: titled_def)
  have r: "fst (get_person_information w a person_name) = SearchResults person_name (?m @ ?rest)"
    using m d ne by (auto simp: get_person_information_def case_prod_beta)
  have cards: "filter is_card ?m = map mysql_faculty_card fs @ map mysql_pub_card ps"
    by (simp add: titled_def filter_id_conv mysql_cards)
  have nocards: "filter is_card ?rest = []"
    using g by (auto simp: filter_empty_conv)
  have nomongo: "H5 ''MongoDB - Faculty Information'' \<notin> set (?m @ ?rest)
                 \<and> H5 ''MongoDB - Publications'' \<notin> set (?m @ ?rest)"
    using g by (auto simp: titled_def mysql_cards)
  show ?thesis
    using g cards nocards nomongo by (simp add: r) 
qed

text \<open>
  Claim C1. When the MongoDB handle is absent or not connected, or its server fails every
  query, and the MySQL queries return three faculty and publication rows in all, the person
  search returns a report that starts with those rows under the MySQL headings: a faculty
  row as the card of its name, email, position, department, university, research and
  interests, a publication row as the card of its title, year, venue and citations, an
  empty or null field shown as \<^verbatim>\<open>N/A\<close> (citations as 0). The cards of the report are
  exactly the cards of the three rows, no MongoDB heading occurs, and what follows the MySQL
  sections are Neo4j headings only.
\<close>

theorem person_search_degrades:
  assumes "mongodb_available w = None \<or> (failed (faculty_docs a) \<and> failed (pub_docs a))"
    and "mysql_available w = Some conn"
    and "\<not> mysql_stale conn \<or> (\<exists>c. mysql_server w = Returns c \<and> is_connected c)"
    and "faculty_rows a = Returns fs" and "pub_rows a = Returns ps"
    and "length fs + length ps = 3"
  shows "(\<exists>rest. fst (get_person_information w a person_name)
            = SearchResults person_name
                (titled ''MySQL - Faculty Information''
                   (map (\<lambda>(f0, f1, f2, f3, f4, f5, f6, f7, f8).
                           Div [(''Name'', f1),
                                (''Email'', or_default f2 (PyStr ''N/A'')),
                                (''Position'', or_default f4 (PyStr ''N/A'')),
                                (''Department'', or_default f7 (PyStr ''N/A'')),
                                (''University'', or_default f8 (PyStr ''N/A'')),
                                (''Research'', or_default f5 (PyStr ''N/A'')),
                                (''Interests'', or_default f6 (PyStr ''N/A''))]) fs)
                 @ titled ''MySQL - Publications''
                     (map (\<lambda>(p0, p1, p2, p3).
                             Div [(''Title'', p0),
                                  (''Year'', or_default p1 (PyStr ''N/A'')),
                                  (''Venue'', or_default p2 (PyStr ''N/A'')),
                                  (''Citations'', or_default p3 (PyInt 0))]) ps)
                 @ rest)
          \<and> set rest \<subseteq> {H5 ''Neo4j - Person Information'', H5 ''Neo4j - Publications'',
                         H5 ''Neo4j - Top Collaborators''})
       \<and> filter is_card (elements (fst (get_person_information w a person_name)))
           = map (\<lambda>(f0, f1, f2, f3, f4, f5, f6, f7, f8).
                    Div [(''Name'', f1),
                         (''Email'', or_default f2 (PyStr ''N/A'')),
                         (''Position'', or_default f4 (PyStr ''N/A'')),
                         (''Department'', or_default f7 (PyStr ''N/A'')),
                         (''University'', or_default f8 (PyStr ''N/A'')),
                         (''Research'', or_default f5 (PyStr ''N/A'')),
                         (''Interests'', or_default f6 (PyStr ''N/A''))]) fs
             @ map (\<lambda>(p0, p1, p2, p3).
                      Div [(''Title'', p0),
                           (''Year'', or_default p1 (PyStr ''N/A'')),
                           (''Venue'', or_default p2 (PyStr ''N/A'')),
                           (''Citations'', or_default p3 (PyInt 0))]) ps
       \<and> H5 ''MongoDB - Faculty Information''
           \<notin> set (elements (fst (get_person_information w a person_name)))
       \<and> H5 ''MongoDB - Publications''
           \<notin> set (elements (fst (get_person_information w a person_name)))"
  using person_search_sections [OF assms, of person_name]
  unfolding mysql_card_lines .

theorem person_search_degrades_witness:
  "(mongodb_available connected_world = None
      \<or> (failed (faculty_docs three_records) \<and> failed (pub_docs three_records)))
   \<and> mysql_available connected_world = Some \<lparr>connection = Some \<lparr>is_connected = True\<rparr>\<rparr>
   \<and> \<not> mysql_stale \<lparr>connection = Some \<lparr>is_connected = True\<rparr>\<rparr>
   \<and> faculty_rows three_records = Returns [ada_faculty]
   \<and> pub_rows three_records = Returns [ada_pub1, ada_pub2]
   \<and> length [ada_faculty] + length [ada_pub1, ada_pub2] = 3
   \<and> filter is_card (elements (fst (get_person_information connected_world three_records ''Ada'')))
       = [Div [(''Name'', PyStr ''Ada Lovelace''), (''Email'', PyStr ''ada@example.edu''),
               (''Position'', PyStr ''Professor''), (''Department'', PyStr ''Mathematics''),
               (''University'', PyStr ''London''), (''Research'', PyStr ''Analytical engines''),
               (''Interests'', PyStr ''N/A'')],
          Div [(''Title'', PyStr ''Notes on the engine''), (''Year'', PyInt 1843),
               (''Venue'', PyStr ''Scientific Memoirs''), (''Citations'', PyInt 150)],
          Div [(''Title'', PyStr ''Sketch''), (''Year'', PyStr ''N/A''),
               (''Venue'', PyStr ''N/A''), (''Citations'', PyInt 0)]]
   \<and> fst (get_person_information connected_world three_records ''Ada'')
       = SearchResults ''Ada''
           [H5 ''MySQL - Faculty Information'',
            Div [(''Name'', PyStr ''Ada Lovelace''), (''Email'', PyStr ''ada@example.edu''),
                 (''Position'', PyStr ''Professor''), (''Department'', PyStr ''Mathematics''),
                 (''University'', PyStr ''London''), (''Research'', PyStr ''Analytical engines''),
                 (''Interests'', PyStr ''N/A'')],
            H5 ''MySQL - Publications'',
            Div [(''Title'', PyStr ''Notes on the engine''), (''Year'', PyInt 1843),
                 (''Venue'', PyStr ''Scientific Memoirs''), (''Citations'', PyInt 150)],
            Div [(''Title'', PyStr ''Sketch''), (''Year'', PyStr ''N/A''),
                 (''Venue'', PyStr ''N/A''), (''Citations'', PyInt 0)],
            H5 ''Neo4j - Person Information'']"
proof -
  have h1: "mongodb_available connected_world = None
      \<or> (failed (faculty_docs three_records) \<and> failed (pub_docs three_records))"
    by (simp add: three_records_def)
  have h2: "mysql_available connected_world = Some \<lparr>connection = Some \<lparr>is_connected = True\<rparr>\<rparr>"
    by (simp add: mysql_available_def connected_world_def)
  have h3: "\<not> mysql_stale \<lparr>connection = Some \<lparr>is_connected = True\<rparr>\<rparr>
      \<or> (\<exists>c. mysql_server connected_world = Returns c \<and> is_connected c)"
    by (simp add: mysql_stale_def)
  have h4: "faculty_rows three_records = Returns [ada_faculty]"
    by (simp add: three_records_def)
  have h5: "pub_rows three_records = Returns [ada_pub1, ada_pub2]"
    by (simp add: three_records_def)
  have h6: "length [ada_faculty] + length [ada_pub1, ada_pub2] = 3"
    by simp
  have cards: "filter is_card
      (elements (fst (get_person_information connected_world three_records ''Ada'')))
       = [Div [(''Name'', PyStr ''Ada Lovelace''), (''Email'', PyStr ''ada@example.edu''),
               (''Position'', PyStr ''Professor''), (''Department'', PyStr ''Mathematics''),
               (''University'', PyStr ''London''), (''Research'', PyStr ''Analytical engines''),
               (''Interests'', PyStr ''N/A'')],
          Div [(''Title'', PyStr ''Notes on the engine''), (''Year'', PyInt 1843),
               (''Venue'', PyStr ''Scientific Memoirs''), (''Citations'', PyInt 150)],
          Div [(''Title'', PyStr ''Sketch''), (''Year'', PyStr ''N/A''),
               (''Venue'', PyStr ''N/A''), (''Citations'', PyInt 0)]]"
    using person_search_degrades [OF h1 h2 h3 h4 h5 h6, of "''Ada''"]
    by (simp add: ada_faculty_def ada_pub1_def ada_pub2_def or_default_def)
  have report: "fst (get_person_information connected_world three_records ''Ada'')
       = SearchResults ''Ada''
           [H5 ''MySQL - Faculty Information'',
            Div [(''Name'', PyStr ''Ada Lovelace''), (''Email'', PyStr ''ada@example.edu''),
                 (''Position'', PyStr ''Professor''), (''Department'', PyStr ''Mathematics''),
                 (''University'', PyStr ''London''), (''Research'', PyStr ''Analytical engines''),
                 (''Interests'', PyStr ''N/A'')],
            H5 ''MySQL - Publications'',
            Div [(''Title'', PyStr ''Notes on the engine''), (''Year'', PyInt 1843),
                 (''Venue'', PyStr ''Scientific Memoirs''), (''Citations'', PyInt 150)],
            Div [(''Title'', PyStr ''Sketch''), (''Year'', PyStr ''N/A''),
                 (''Venue'', PyStr ''N/A''), (''Citations'', PyInt 0)],
            H5 ''Neo4j - Person Information'']"
    by code_simp
  from h1 h2 h4 h5 cards report show ?thesis
    by (simp add: mysql_stale_def)
qed

section \<open>Publications over time\<close>

declare sample_loop.simps [simp del]

lemma execute_aggregation_missing:
  "mongodb_getattr ''execute_aggregation''
     = Inl (AttributeError ''MongoDBConnection'' ''execute_aggregation'')"
  by (simp add: mongodb_getattr_def MongoDBConnection_methods_def MongoDBConnection_fields_def)

lemma mongodb_timeseries_nothing:
  "mongodb_timeseries w a pd
     = ([], if mongodb_available w \<noteq> None \<and> pd = []
            then [Log WARNING ''MongoDB publications query failed''] else [])"
  by (auto simp: mongodb_timeseries_def execute_aggregation_missing split: option.splits)


lemma neo4j_point_raises: "neo4j_point row = Inl KeyError"
  by (simp add: neo4j_point_def getitem_position try_bind_def)

lemma neo4j_timeseries_nothing: "fst (neo4j_timeseries w a pd) = []"
proof -
  have "append_each neo4j_point results = ([], if results = [] then None else Some KeyError)"
    for results
    by (cases results) (simp_all add: neo4j_point_raises)
  then show ?thesis
    by (auto simp: neo4j_timeseries_def split: option.splits prod.splits)
qed

lemma mysql_timeseries_source: "p \<in> set (fst (mysql_timeseries w a)) \<Longrightarrow> source p = ''MySQL''"
  by (auto simp: mysql_timeseries_def split: option.splits prod.splits sum.splits)

lemma real_publication_data_mysql:
  "fst (real_publication_data w a) = fst (mysql_timeseries w a)"
  using neo4j_timeseries_nothing [of w a]
  by (simp add: real_publication_data_def mongodb_timeseries_nothing case_prod_beta)

lemma sample_loop_source:
  "p \<in> set (sample_loop randint current_date end_date i) \<Longrightarrow> source p = ''Sample Data''"
proof (induction randint current_date end_date i rule: sample_loop.induct)
  case (1 randint current_date end_date i)
  show ?case
  proof (cases "current_date \<le> end_date")
    case True
    with "1.prems" "1.IH" show ?thesis
      by (subst (asm) sample_loop.simps) (auto simp: Let_def)
  next
    case False
    with "1.prems" show ?thesis
      by (subst (asm) sample_loop.simps) simp
  qed
qed

lemma sample_data_nonempty: "sample_data now randint \<noteq> []"
  unfolding sample_data_def by (subst sample_loop.simps) (simp add: Let_def)

lemma publication_data_cases:
  "fst (publication_data w a now randint)
     = (if fst (real_publication_data w a) = [] then sample_data now randint
        else fst (real_publication_data w a))"
  by (simp add: publication_data_def case_prod_beta)

lemma timeseries_info_source:
  assumes "fst (publication_data w a now randint) \<noteq> []"
    and "\<forall>p \<in> set (fst (publication_data w a now randint)). source p = s"
  shows "\<exists>t m. snd (fst (get_timeseries_widget_data w a now randint)) = TimeseriesInfo t m s"
proof -
  obtain data ev where d: "publication_data w a now randint = (data, ev)"
    by (cases "publication_data w a now randint")
  with assms have ne: "data \<noteq> []" and src: "\<forall>p \<in> set data. source p = s" by auto
  obtain p ps where srt: "sort_key date data = p # ps"
    using ne by (cases "sort_key date data") (auto dest: arg_cong [where f = length])
  have "p \<in> set data"
    using srt set_sort [of date data] by (metis list.set_intros(1))
  with src have "source p = s" by blast
  then show ?thesis
    by (simp add: get_timeseries_widget_data_def d srt)
qed

text \<open>
  Claim C9, as the code has it. When the three blocks find no dated record, the widget
  substitutes the sample series, which is never empty; every record of it carries the
  source tag \<^verbatim>\<open>Sample Data\<close>, and so does the information line. When a block finds
  records, the data are those records, and every one of them and the information line
  carry the source tag \<^verbatim>\<open>MySQL\<close>. The tag tells the substitution from real data.
\<close>

theorem sample_data_tag:
  "(fst (real_publication_data w a) = [] \<longrightarrow>
      fst (publication_data w a now randint) = sample_data now randint
      \<and> sample_data now randint \<noteq> []
      \<and> (\<forall>p \<in> set (fst (publication_data w a now randint)). source p = ''Sample Data'')
      \<and> (\<exists>t m. snd (fst (get_timeseries_widget_data w a now randint))
                  = TimeseriesInfo t m ''Sample Data''))
   \<and> (fst (real_publication_data w a) \<noteq> [] \<longrightarrow>
      fst (publication_data w a now randint) = fst (real_publication_data w a)
      \<and> (\<forall>p \<in> set (fst (publication_data w a now randint)). source p = ''MySQL'')
      \<and> (\<exists>t m. snd (fst (get_timeseries_widget_data w a now randint))
                  = TimeseriesInfo t m ''MySQL''))"
proof (cases "fst (real_publication_data w a) = []")
  case True
  then have eq: "fst (publication_data w a now randint) = sample_data now randint"
    by (simp add: publication_data_cases)
  have src: "\<forall>p \<in> set (fst (publication_data w a now randint)). source p = ''Sample Data''"
    unfolding eq sample_data_def using sample_loop_source by blast
  have ne: "fst (publication_data w a now randint) \<noteq> []"
    by (simp add: eq sample_data_nonempty)
  show ?thesis
    using True eq src sample_data_nonempty timeseries_info_source [OF ne src] by simp
next
  case False
  then have eq: "fst (publication_data w a now randint) = fst (real_publication_data w a)"
    by (simp add: publication_data_cases)
  have src: "\<forall>p \<in> set (fst (publication_data w a now randint)). source p = ''MySQL''"
    unfolding eq real_publication_data_mysql using mysql_timeseries_source by blast
  have ne: "fst (publication_data w a now randint) \<noteq> []"
    using False by (simp add: eq)
  show ?thesis
    using False eq src timeseries_info_source [OF ne src] by simp
qed

lemma offline_real_data: "fst (real_publication_data offline_world a) = []"
  by (simp add: real_publication_data_mysql mysql_timeseries_def mysql_available_def
      offline_world_def)

lemma tag_everywhere: "xs \<noteq> [] \<Longrightarrow> \<forall>p \<in> set xs. source p = t \<Longrightarrow> source ` set xs = {t}"
  by (cases xs) auto

theorem sample_data_tag_witness:
  "fst (real_publication_data offline_world no_dates) = []
   \<and> source ` set (fst (publication_data offline_world no_dates 738000 no_jitter))
       = {''Sample Data''}
   \<and> fst (real_publication_data live_world all_dated) \<noteq> []
   \<and> source ` set (fst (publication_data live_world all_dated 738000 no_jitter)) = {''MySQL''}"
proof -
  have r: "fst (real_publication_data live_world all_dated)
           = [\<lparr>date = 738000, count = 4, source = ''MySQL''\<rparr>]"
    by (simp add: real_publication_data_mysql mysql_timeseries_def mysql_available_def
        live_world_def all_dated_def mysql_execute_query_def mysql_stale_def mysql_run_query_def)
  have off: "fst (publication_data offline_world no_dates 738000 no_jitter) \<noteq> []
      \<and> (\<forall>p \<in> set (fst (publication_data offline_world no_dates 738000 no_jitter)).
            source p = ''Sample Data'')"
    using sample_data_tag [of offline_world no_dates 738000 no_jitter]
    by (simp add: offline_real_data)
  have on: "fst (publication_data live_world all_dated 738000 no_jitter) \<noteq> []
      \<and> (\<forall>p \<in> set (fst (publication_data live_world all_dated 738000 no_jitter)).
            source p = ''MySQL'')"
    using sample_data_tag [of live_world all_dated 738000 no_jitter]
    by (simp add: r)
  show ?thesis
    using tag_everywhere [of "fst (publication_data offline_world no_dates 738000 no_jitter)"
        "''Sample Data''"]
      tag_everywhere [of "fst (publication_data live_world all_dated 738000 no_jitter)"
        "''MySQL''"] off on
    by (simp add: offline_real_data r)
qed

lemma tag_absent: "\<forall>p \<in> set xs. source p = t \<Longrightarrow> s \<noteq> t \<Longrightarrow> s \<notin> source ` set xs"
  by auto

text \<open>
  Claim C9 as stated fails: without any backend the series is the substitution, and none of
  its records carries the tag \<^verbatim>\<open>synthetic-fallback\<close>.
\<close>

theorem synthetic_fallback_counterexample:
  "fst (publication_data offline_world no_dates 738000 no_jitter) \<noteq> []
   \<and> ''synthetic-fallback''
       \<notin> source ` set (fst (publication_data offline_world no_dates 738000 no_jitter))"
proof -
  have eq: "fst (publication_data offline_world no_dates 738000 no_jitter)
            = sample_data 738000 no_jitter"
    by (simp add: publication_data_cases offline_real_data)
  have src: "\<forall>p \<in> set (sample_data 738000 no_jitter). source p = ''Sample Data''"
    unfolding sample_data_def using sample_loop_source by blast
  have neq: "''synthetic-fallback'' \<noteq> ''Sample Data''"
    by simp
  have ne: "sample_data 738000 no_jitter \<noteq> []"
    by (rule sample_data_nonempty)
  show ?thesis
    unfolding eq using ne tag_absent [OF src neq] by (rule conjI)
qed

text \<open>
  Claim C10. \<^verbatim>\<open>MongoDBConnection\<close> has no attribute \<^verbatim>\<open>execute_aggregation\<close>, so the lookup
  raises \<^verbatim>\<open>AttributeError\<close>. The MongoDB block of the widget therefore appends nothing; whenever
  it is entered (the handle is connected and nothing was found before) its only effect is
  the logged warning, without any query sent. No record of the series and no information
  line ever carries the source \<^verbatim>\<open>MongoDB\<close>.
\<close>

theorem document_backend_contributes_nothing:
  "mongodb_getattr ''execute_aggregation''
     = Inl (AttributeError ''MongoDBConnection'' ''execute_aggregation'')
   \<and> fst (mongodb_timeseries w a found) = []
   \<and> (mongodb_available w \<noteq> None \<and> found = [] \<longrightarrow>
        snd (mongodb_timeseries w a found) = [Log WARNING ''MongoDB publications query failed''])
   \<and> (\<forall>p \<in> set (fst (publication_data w a now randint)). source p \<noteq> ''MongoDB'')
   \<and> (\<forall>t m. snd (fst (get_timeseries_widget_data w a now randint))
               \<noteq> TimeseriesInfo t m ''MongoDB'')"
proof -
  have src: "\<forall>p \<in> set (fst (publication_data w a now randint)).
               source p = ''Sample Data'' \<or> source p = ''MySQL''"
    using sample_loop_source mysql_timeseries_source
    by (auto simp: publication_data_cases real_publication_data_mysql sample_data_def)
  have info: "snd (fst (get_timeseries_widget_data w a now randint)) \<noteq> TimeseriesInfo t m ''MongoDB''"
    for t m
  proof -
    obtain data ev where d: "publication_data w a now randint = (data, ev)"
      by (cases "publication_data w a now randint")
    show ?thesis
    proof (cases "sort_key date data")
      case Nil
      then show ?thesis by (simp add: get_timeseries_widget_data_def d)
    next
      case (Cons p ps)
      then have "p \<in> set data"
        using set_sort [of date data] by (metis list.set_intros(1))
      with src d have "source p \<noteq> ''MongoDB''" by auto
      then show ?thesis by (simp add: get_timeseries_widget_data_def d Cons)
    qed
  qed
  from src info show ?thesis
    by (auto simp: execute_aggregation_missing mongodb_timeseries_nothing)
qed

lemma tag_never: "\<forall>p \<in> set xs. source p \<noteq> s \<Longrightarrow> s \<notin> source ` set xs"
  by auto

theorem document_backend_contributes_nothing_witness:
  "mongodb_available connected_world \<noteq> None
   \<and> mongodb_timeseries connected_world all_dated []
       = ([], [Log WARNING ''MongoDB publications query failed''])
   \<and> ''MongoDB'' \<notin> source ` set (fst (publication_data connected_world all_dated 738000 no_jitter))"
proof -
  have a: "mongodb_available connected_world \<noteq> None"
    by (simp add: mongodb_available_def connected_world_def)
  have b: "\<forall>p \<in> set (fst (publication_data connected_world all_dated 738000 no_jitter)).
             source p \<noteq> ''MongoDB''"
    and c: "snd (mongodb_timeseries connected_world all_dated [])
              = [Log WARNING ''MongoDB publications query failed'']"
    and d: "fst (mongodb_timeseries connected_world all_dated []) = []"
    using document_backend_contributes_nothing
      [of connected_world all_dated "[]" 738000 no_jitter] a
    by simp_all
  from b have "''MongoDB''
      \<notin> source ` set (fst (publication_data connected_world all_dated 738000 no_jitter))"
    by (rule tag_never)
  with a c d show ?thesis
    by (simp add: prod_eq_iff)
qed

end
